theory Spec2Isabelle
  imports Complex_Main "HOL-Library.AList"
begin

section \<open>Host-language containers\<close>

text \<open>
  A JavaScript \<^verbatim>\<open>Map\<close> keeps its entries in insertion order: \<^verbatim>\<open>set\<close> on a present key
  replaces the value in place, \<^verbatim>\<open>set\<close> on an absent key appends, \<^verbatim>\<open>delete\<close> removes the
  entry. It is modelled as an association list read with \<^const>\<open>map_of\<close> and written with
  \<^const>\<open>AList.update\<close> and \<^const>\<open>AList.delete\<close>. A \<^verbatim>\<open>Set\<close> of strings is a list in
  insertion order.
\<close>

type_synonym ('k, 'v) js_map = "('k \<times> 'v) list"

definition set_add :: "'a \<Rightarrow> 'a list \<Rightarrow> 'a list" where
  "set_add x xs = (if x \<in> set xs then xs else xs @ [x])"

definition set_delete :: "'a \<Rightarrow> 'a list \<Rightarrow> 'a list" where
  "set_delete x xs = removeAll x xs"

text \<open>The truthiness test \<^verbatim>\<open>if (s)\<close> on an optional string: absent and empty are both falsy.\<close>

definition truthy :: "string option \<Rightarrow> bool" where
  "truthy s = (case s of None \<Rightarrow> False | Some v \<Rightarrow> v \<noteq> [])"

section \<open>Protocol (protocol.ts)\<close>

text \<open>
  Epoch milliseconds and the integer fields are \<^typ>\<open>int\<close>; \<^verbatim>\<open>load\<close> and \<^verbatim>\<open>percent\<close> are
  \<^typ>\<open>real\<close>. A \<^verbatim>\<open>Record<string, unknown>\<close> is a list of named JSON values. The field
  \<^verbatim>\<open>context\<close> of a task assignment is called \<open>task_context\<close> here.
\<close>

datatype json_value =
    JNull
  | JBool bool
  | JNumber real
  | JString string
  | JArray "json_value list"
  | JObject "(string \<times> json_value) list"

type_synonym json_record = "(string \<times> json_value) list"

record AgentRole =
  roleId :: string
  name :: string
  description :: "string option"
  systemPromptFragment :: "string option"
  allowedTools :: "string list option"
  deniedTools :: "string list option"
  maxConcurrent :: "int option"
  priority :: "int option"

record MultiAgentIdentity =
  agentInstanceId :: string
  agentConfigId :: string
  gatewayId :: string
  roleId :: "string option"
  displayName :: "string option"
  capabilities :: "string list option"

datatype MessageDirection = Request | Response | Broadcast | Event

text \<open>
  \<^verbatim>\<open>timestamp\<close> holds the value of \<^verbatim>\<open>new Date(envelope.timestamp).getTime()\<close>, the only
  use the core makes of the field: \<open>None\<close> stands for a string that does not parse (NaN).
\<close>

record MessageEnvelope =
  messageId :: string
  correlationId :: string
  timestamp :: "int option"
  env_from :: MultiAgentIdentity
  env_to :: "MultiAgentIdentity option"
  direction :: MessageDirection
  signature :: "string option"
  ttlSeconds :: "int option"
  hopCount :: "int option"

datatype ResultStatus = Success | Failure | Partial | ResultTimeout

record TaskAssignmentPayload =
  task :: string
  task_context :: "json_record option"
  deadline :: "string option"
  priority :: "int option"
  timeoutMs :: "int option"
  workflowStepId :: "string option"

record TokenUsage =
  inputTokens :: int
  outputTokens :: int
  cacheReadTokens :: "int option"

record TaskResultPayload =
  status :: ResultStatus
  result :: "string option"
  structuredOutput :: "json_record option"
  error :: "string option"
  usage :: "TokenUsage option"
  durationMs :: "int option"
  workflowStepId :: "string option"

record TaskProgressPayload =
  percent :: "real option"
  statusLine :: "string option"
  metadata :: "json_record option"
  workflowStepId :: "string option"

record HeartbeatPayload =
  load :: "real option"
  activeTasks :: "int option"
  uptimeMs :: "int option"

datatype DiscoveryAction = Join | Leave | Announce

record AgentDiscoveryPayload =
  action :: DiscoveryAction
  agent :: MultiAgentIdentity
  availableRoles :: "string list option"

record RoleAssignPayload =
  targetAgentInstanceId :: string
  role :: AgentRole

datatype MultiAgentPayload =
    TaskAssign TaskAssignmentPayload
  | TaskResult TaskResultPayload
  | TaskProgress TaskProgressPayload
  | Heartbeat HeartbeatPayload
  | AgentDiscovery AgentDiscoveryPayload
  | RoleAssign RoleAssignPayload
  | SecurityChallenge string
  | SecurityResponse string string

text \<open>The literal \<^verbatim>\<open>type\<close> discriminator of a payload.\<close>

fun payload_type :: "MultiAgentPayload \<Rightarrow> string" where
  "payload_type (TaskAssign _) = ''task.assign''"
| "payload_type (TaskResult _) = ''task.result''"
| "payload_type (TaskProgress _) = ''task.progress''"
| "payload_type (Heartbeat _) = ''heartbeat''"
| "payload_type (AgentDiscovery _) = ''agent.discovery''"
| "payload_type (RoleAssign _) = ''role.assign''"
| "payload_type (SecurityChallenge _) = ''security.challenge''"
| "payload_type (SecurityResponse _ _) = ''security.response''"

record MultiAgentMessage =
  envelope :: MessageEnvelope
  payload :: MultiAgentPayload

section \<open>Work tracker (work-tracker.ts)\<close>

datatype TaskStatus =
  Pending | Assigned | InProgress | Completed | Failed | Timeout | Cancelled

record TrackedTask =
  taskId :: string
  correlationId :: string
  task :: string
  status :: TaskStatus
  assignedTo :: "MultiAgentIdentity option"
  requestedBy :: "MultiAgentIdentity option"
  workflowStepId :: "string option"
  workflowPlanId :: "string option"
  priority :: int
  createdAt :: int
  assignedAt :: "int option"
  startedAt :: "int option"
  completedAt :: "int option"
  deadline :: "int option"
  progressPercent :: "real option"
  statusLine :: "string option"
  result :: "TaskResultPayload option"
  retryCount :: int
  maxRetries :: int
  tags :: "string list"

record CreateTaskOpts =
  taskId :: string
  correlationId :: string
  task :: string
  requestedBy :: "MultiAgentIdentity option"
  workflowStepId :: "string option"
  workflowPlanId :: "string option"
  priority :: "int option"
  deadline :: "int option"
  maxRetries :: "int option"
  tags :: "string list option"

record WorkTracker =
  tasks :: "(string, TrackedTask) js_map"
  agentTaskIndex :: "(string, string list) js_map"
  workflowTaskIndex :: "(string, string list) js_map"
  stepIndex :: "(string, string) js_map"

definition new_WorkTracker :: WorkTracker where
  "new_WorkTracker =
     \<lparr>tasks = [], agentTaskIndex = [], workflowTaskIndex = [], stepIndex = []\<rparr>"

text \<open>
  \<^verbatim>\<open>let set = index.get(k); if (!set) { set = new Set(); index.set(k, set) } set.add(id)\<close>
\<close>

definition index_add :: "string \<Rightarrow> string \<Rightarrow> (string, string list) js_map \<Rightarrow> (string, string list) js_map" where
  "index_add k tid idx =
     (case map_of idx k of
        None \<Rightarrow> AList.update k [tid] idx
      | Some ids \<Rightarrow> AList.update k (set_add tid ids) idx)"

text \<open>\<^verbatim>\<open>index.get(k)?.delete(id)\<close>\<close>

definition index_remove :: "string \<Rightarrow> string \<Rightarrow> (string, string list) js_map \<Rightarrow> (string, string list) js_map" where
  "index_remove k tid idx =
     (case map_of idx k of
        None \<Rightarrow> idx
      | Some ids \<Rightarrow> AList.update k (set_delete tid ids) idx)"

text \<open>
  Every operation that reads the clock takes \<open>now\<close>, the value of \<^verbatim>\<open>Date.now()\<close>.
  \<^verbatim>\<open>createTask\<close> does not copy \<^verbatim>\<open>opts.deadline\<close>: a new task has no deadline.
\<close>

definition createTask :: "WorkTracker \<Rightarrow> int \<Rightarrow> CreateTaskOpts \<Rightarrow> TrackedTask \<times> WorkTracker" where
  "createTask s now opts =
     (let tracked =
            \<lparr>TrackedTask.taskId = CreateTaskOpts.taskId opts,
             correlationId = CreateTaskOpts.correlationId opts,
             task = CreateTaskOpts.task opts,
             status = Pending,
             assignedTo = None,
             requestedBy = CreateTaskOpts.requestedBy opts,
             workflowStepId = CreateTaskOpts.workflowStepId opts,
             workflowPlanId = CreateTaskOpts.workflowPlanId opts,
             priority = (case CreateTaskOpts.priority opts of None \<Rightarrow> 50 | Some p \<Rightarrow> p),
             createdAt = now,
             assignedAt = None,
             startedAt = None,
             completedAt = None,
             deadline = None,
             progressPercent = None,
             statusLine = None,
             result = None,
             retryCount = 0,
             maxRetries = (case CreateTaskOpts.maxRetries opts of None \<Rightarrow> 2 | Some m \<Rightarrow> m),
             tags = (case CreateTaskOpts.tags opts of None \<Rightarrow> [] | Some ts \<Rightarrow> ts)\<rparr>;
          s1 = s\<lparr>tasks := AList.update (TrackedTask.taskId tracked) tracked (tasks s)\<rparr>;
          s2 = (if truthy (CreateTaskOpts.workflowPlanId opts)
                then s1\<lparr>workflowTaskIndex :=
                         index_add (the (CreateTaskOpts.workflowPlanId opts))
                           (TrackedTask.taskId tracked) (workflowTaskIndex s1)\<rparr>
                else s1);
          s3 = (if truthy (CreateTaskOpts.workflowStepId opts)
                then s2\<lparr>stepIndex :=
                         AList.update (the (CreateTaskOpts.workflowStepId opts))
                           (TrackedTask.taskId tracked) (stepIndex s2)\<rparr>
                else s2)
      in (tracked, s3))"

definition assignTask :: "WorkTracker \<Rightarrow> int \<Rightarrow> string \<Rightarrow> MultiAgentIdentity \<Rightarrow> bool \<times> WorkTracker" where
  "assignTask s now tid ag =
     (case map_of (tasks s) tid of
        None \<Rightarrow> (False, s)
      | Some t \<Rightarrow>
          if TrackedTask.status t \<noteq> Pending \<and> TrackedTask.status t \<noteq> Failed then (False, s)
          else
            (let t' = t\<lparr>TrackedTask.status := Assigned,
                        assignedTo := Some ag,
                        assignedAt := Some now\<rparr>
             in (True, s\<lparr>tasks := AList.update tid t' (tasks s),
                         agentTaskIndex :=
                           index_add (agentInstanceId ag) tid (agentTaskIndex s)\<rparr>)))"

definition startTask :: "WorkTracker \<Rightarrow> int \<Rightarrow> string \<Rightarrow> bool \<times> WorkTracker" where
  "startTask s now tid =
     (case map_of (tasks s) tid of
        None \<Rightarrow> (False, s)
      | Some t \<Rightarrow>
          if TrackedTask.status t \<noteq> Assigned then (False, s)
          else (True, s\<lparr>tasks :=
                  AList.update tid (t\<lparr>TrackedTask.status := InProgress, startedAt := Some now\<rparr>)
                    (tasks s)\<rparr>))"

definition updateProgress :: "WorkTracker \<Rightarrow> string \<Rightarrow> real option \<Rightarrow> string option \<Rightarrow> bool \<times> WorkTracker" where
  "updateProgress s tid pct line =
     (case map_of (tasks s) tid of
        None \<Rightarrow> (False, s)
      | Some t \<Rightarrow>
          (let t1 = (case pct of None \<Rightarrow> t | Some p \<Rightarrow> t\<lparr>progressPercent := Some p\<rparr>);
               t2 = (case line of None \<Rightarrow> t1 | Some l \<Rightarrow> t1\<lparr>TrackedTask.statusLine := Some l\<rparr>)
           in (True, s\<lparr>tasks := AList.update tid t2 (tasks s)\<rparr>)))"

definition completeTask :: "WorkTracker \<Rightarrow> int \<Rightarrow> string \<Rightarrow> TaskResultPayload \<Rightarrow> bool \<times> WorkTracker" where
  "completeTask s now tid res =
     (case map_of (tasks s) tid of
        None \<Rightarrow> (False, s)
      | Some t \<Rightarrow>
          (let t1 = t\<lparr>completedAt := Some now,
                      TrackedTask.result := Some res,
                      progressPercent := Some 100\<rparr>;
               t2 = (if TaskResultPayload.status res = Success \<or> TaskResultPayload.status res = Partial
                     then t1\<lparr>TrackedTask.status := Completed\<rparr>
                     else if TaskResultPayload.status res = ResultTimeout
                     then t1\<lparr>TrackedTask.status := Timeout\<rparr>
                     else t1\<lparr>TrackedTask.status := Failed\<rparr>)
           in (True, s\<lparr>tasks := AList.update tid t2 (tasks s)\<rparr>)))"

definition cancelTask :: "WorkTracker \<Rightarrow> int \<Rightarrow> string \<Rightarrow> bool \<times> WorkTracker" where
  "cancelTask s now tid =
     (case map_of (tasks s) tid of
        None \<Rightarrow> (False, s)
      | Some t \<Rightarrow>
          if TrackedTask.status t = Completed \<or> TrackedTask.status t = Cancelled then (False, s)
          else (True, s\<lparr>tasks :=
                  AList.update tid (t\<lparr>TrackedTask.status := Cancelled, completedAt := Some now\<rparr>)
                    (tasks s)\<rparr>))"

definition retryTask :: "WorkTracker \<Rightarrow> string \<Rightarrow> bool \<times> WorkTracker" where
  "retryTask s tid =
     (case map_of (tasks s) tid of
        None \<Rightarrow> (False, s)
      | Some t \<Rightarrow>
          if TrackedTask.status t \<noteq> Failed \<and> TrackedTask.status t \<noteq> Timeout then (False, s)
          else if retryCount t \<ge> TrackedTask.maxRetries t then (False, s)
          else
            (True, s\<lparr>tasks :=
               AList.update tid
                 (t\<lparr>retryCount := retryCount t + 1,
                    TrackedTask.status := Pending,
                    assignedTo := None,
                    assignedAt := None,
                    startedAt := None,
                    completedAt := None,
                    progressPercent := None,
                    TrackedTask.statusLine := None,
                    TrackedTask.result := None\<rparr>)
                 (tasks s)\<rparr>))"

definition getTask :: "WorkTracker \<Rightarrow> string \<Rightarrow> TrackedTask option" where
  "getTask s tid = map_of (tasks s) tid"

text \<open>
  The body of the \<^verbatim>\<open>cleanup\<close> loop for one entry that is to be removed: the entry is
  deleted from the primary map and the three indices are cleaned from the task's own fields.
\<close>

definition cleanup_remove :: "WorkTracker \<Rightarrow> string \<Rightarrow> TrackedTask \<Rightarrow> WorkTracker" where
  "cleanup_remove s tid t =
     (let s1 = s\<lparr>tasks := AList.delete tid (tasks s)\<rparr>;
          s2 = (case assignedTo t of
                  None \<Rightarrow> s1
                | Some a \<Rightarrow> s1\<lparr>agentTaskIndex := index_remove (agentInstanceId a) tid (agentTaskIndex s1)\<rparr>);
          s3 = (if truthy (TrackedTask.workflowPlanId t)
                then s2\<lparr>workflowTaskIndex :=
                         index_remove (the (TrackedTask.workflowPlanId t)) tid (workflowTaskIndex s2)\<rparr>
                else s2);
          s4 = (if truthy (TrackedTask.workflowStepId t)
                then s3\<lparr>stepIndex := AList.delete (the (TrackedTask.workflowStepId t)) (stepIndex s3)\<rparr>
                else s3)
      in s4)"

definition cleanup_due :: "int \<Rightarrow> TrackedTask \<Rightarrow> bool" where
  "cleanup_due cutoff t =
     ((TrackedTask.status t = Completed \<or> TrackedTask.status t = Cancelled \<or> TrackedTask.status t = Failed)
      \<and> (case completedAt t of None \<Rightarrow> createdAt t | Some c \<Rightarrow> c) < cutoff)"

text \<open>
  The loop \<^verbatim>\<open>for (const [taskId, task] of this.tasks)\<close>: deleting the current entry of a
  Map while iterating over it still visits every other entry once, so the loop runs over the
  entries present at the start.
\<close>

fun cleanup_loop :: "int \<Rightarrow> (string \<times> TrackedTask) list \<Rightarrow> WorkTracker \<Rightarrow> nat \<Rightarrow> nat \<times> WorkTracker" where
  "cleanup_loop cutoff [] s removed = (removed, s)"
| "cleanup_loop cutoff ((tid, t) # rest) s removed =
     (if cleanup_due cutoff t
      then cleanup_loop cutoff rest (cleanup_remove s tid t) (removed + 1)
      else cleanup_loop cutoff rest s removed)"

definition cleanup :: "WorkTracker \<Rightarrow> int \<Rightarrow> int \<Rightarrow> nat \<times> WorkTracker" where
  "cleanup s now maxAgeMs = cleanup_loop (now - maxAgeMs) (tasks s) s 0"

subsection \<open>Sequences of tracker operations and the state diagram\<close>

datatype tracker_op =
    AssignTask string MultiAgentIdentity
  | StartTask string
  | CompleteTask string TaskResultPayload
  | CancelTask string
  | RetryTask string

text \<open>One call, made at clock value \<open>now\<close>; the boolean result is dropped.\<close>

fun apply_tracker_op :: "WorkTracker \<Rightarrow> int \<times> tracker_op \<Rightarrow> WorkTracker" where
  "apply_tracker_op s (now, AssignTask tid ag) = snd (assignTask s now tid ag)"
| "apply_tracker_op s (now, StartTask tid) = snd (startTask s now tid)"
| "apply_tracker_op s (now, CompleteTask tid res) = snd (completeTask s now tid res)"
| "apply_tracker_op s (now, CancelTask tid) = snd (cancelTask s now tid)"
| "apply_tracker_op s (now, RetryTask tid) = snd (retryTask s tid)"

definition run_tracker_ops :: "WorkTracker \<Rightarrow> (int \<times> tracker_op) list \<Rightarrow> WorkTracker" where
  "run_tracker_ops s ops = foldl apply_tracker_op s ops"

text \<open>
  The state diagram as the specification draws it (section 3): pending to assigned to
  in-progress; in-progress to completed, failed or timeout; failed and timeout back to pending
  by retry; pending, assigned and in-progress to cancelled.
\<close>

fun spec_diagram :: "TaskStatus \<Rightarrow> TaskStatus \<Rightarrow> bool" where
  "spec_diagram Pending Assigned = True"
| "spec_diagram Assigned InProgress = True"
| "spec_diagram InProgress Completed = True"
| "spec_diagram InProgress Failed = True"
| "spec_diagram InProgress Timeout = True"
| "spec_diagram Failed Pending = True"
| "spec_diagram Timeout Pending = True"
| "spec_diagram Pending Cancelled = True"
| "spec_diagram Assigned Cancelled = True"
| "spec_diagram InProgress Cancelled = True"
| "spec_diagram _ _ = False"

text \<open>
  The diagram the guards of the code draw: \<^verbatim>\<open>assignTask\<close> also accepts a failed task, and
  \<^verbatim>\<open>cancelTask\<close> rejects only completed and cancelled tasks, so failed and timeout tasks
  can be cancelled.
\<close>

definition code_diagram :: "TaskStatus \<Rightarrow> TaskStatus \<Rightarrow> bool" where
  "code_diagram a b =
     (spec_diagram a b \<or> (a = Failed \<and> b = Assigned)
      \<or> (a = Failed \<and> b = Cancelled) \<or> (a = Timeout \<and> b = Cancelled))"

definition terminal :: "TaskStatus \<Rightarrow> bool" where
  "terminal st = (st = Completed \<or> st = Cancelled)"

text \<open>A \<^verbatim>\<open>completeTask\<close> call is applied to a task that is in progress (or to an unknown id).\<close>

fun completes_in_progress :: "WorkTracker \<Rightarrow> tracker_op \<Rightarrow> bool" where
  "completes_in_progress s (CompleteTask tid res) =
     (case map_of (tasks s) tid of None \<Rightarrow> True | Some t \<Rightarrow> TrackedTask.status t = InProgress)"
| "completes_in_progress s _ = True"

fun admissible_run :: "WorkTracker \<Rightarrow> (int \<times> tracker_op) list \<Rightarrow> bool" where
  "admissible_run s [] = True"
| "admissible_run s (x # xs) =
     (completes_in_progress s (snd x) \<and> admissible_run (apply_tracker_op s x) xs)"

definition status_of :: "WorkTracker \<Rightarrow> string \<Rightarrow> TaskStatus option" where
  "status_of s tid = map_option TrackedTask.status (getTask s tid)"

text \<open>
  The statuses a task goes through in a sequence of calls: its status before the first call
  and after every call (\<open>None\<close> when the id is not tracked).
\<close>

fun status_trace :: "WorkTracker \<Rightarrow> (int \<times> tracker_op) list \<Rightarrow> string \<Rightarrow> TaskStatus option list" where
  "status_trace s [] tid = [status_of s tid]"
| "status_trace s (x # xs) tid = status_of s tid # status_trace (apply_tracker_op s x) xs tid"

text \<open>What one call may do to a tracked task: leave its status, or move it along one edge.\<close>

definition legal_step :: "TaskStatus option \<Rightarrow> TaskStatus option \<Rightarrow> bool" where
  "legal_step a b =
     (case a of
        None \<Rightarrow> False
      | Some x \<Rightarrow> (case b of None \<Rightarrow> False | Some y \<Rightarrow> x = y \<or> code_diagram x y))"

subsection \<open>Concrete trackers\<close>

definition example_agent :: "string \<Rightarrow> MultiAgentIdentity" where
  "example_agent i =
     \<lparr>agentInstanceId = i, agentConfigId = ''test-agent'', gatewayId = ''gw-1'',
      roleId = None, displayName = None, capabilities = None\<rparr>"

definition example_opts :: "string \<Rightarrow> CreateTaskOpts" where
  "example_opts tid =
     \<lparr>CreateTaskOpts.taskId = tid, correlationId = ''c1'', task = ''write code'',
      requestedBy = None, workflowStepId = None, workflowPlanId = None,
      priority = None, deadline = None, maxRetries = None, tags = None\<rparr>"

definition example_result :: "ResultStatus \<Rightarrow> TaskResultPayload" where
  "example_result st =
     \<lparr>TaskResultPayload.status = st, result = None, structuredOutput = None, error = None,
      usage = None, durationMs = None, workflowStepId = None\<rparr>"

text \<open>One pending task \<open>t1\<close>, created at time 0.\<close>

definition example_tracker :: WorkTracker where
  "example_tracker = snd (createTask new_WorkTracker 0 (example_opts ''t1''))"

text \<open>The task \<open>t1\<close> after it was assigned, started and reported as a failure.\<close>

definition example_failed_tracker :: WorkTracker where
  "example_failed_tracker =
     run_tracker_ops example_tracker
       [(1, AssignTask ''t1'' (example_agent ''a1'')), (2, StartTask ''t1''),
        (3, CompleteTask ''t1'' (example_result Failure))]"

text \<open>The task \<open>t1\<close> cancelled while pending.\<close>

definition example_cancelled_tracker :: WorkTracker where
  "example_cancelled_tracker = run_tracker_ops example_tracker [(1, CancelTask ''t1'')]"

text \<open>
  Two tasks created at time 0, both assigned to agent \<open>a1\<close> and started; \<open>t1\<close> reported a
  failure and \<open>t2\<close> a timeout at time 30. Both have \<^verbatim>\<open>retryCount = 0\<close> and the default
  \<^verbatim>\<open>maxRetries = 2\<close>.
\<close>

definition example_two_tasks :: WorkTracker where
  "example_two_tasks =
     run_tracker_ops
       (snd (createTask (snd (createTask new_WorkTracker 0 (example_opts ''t1''))) 0
               (example_opts ''t2'')))
       [(10, AssignTask ''t1'' (example_agent ''a1'')), (11, StartTask ''t1''),
        (12, AssignTask ''t2'' (example_agent ''a1'')), (13, StartTask ''t2''),
        (30, CompleteTask ''t1'' (example_result Failure)),
        (30, CompleteTask ''t2'' (example_result ResultTimeout))]"

text \<open>
  A life of \<open>t1\<close> that takes every kind of step: failure and reassignment, timeout and
  retry, a second failure, cancellation of the failed task, and a refused start at the end.
\<close>

definition example_life :: "(int \<times> tracker_op) list" where
  "example_life =
     [(1, AssignTask ''t1'' (example_agent ''a1'')), (2, StartTask ''t1''),
      (3, CompleteTask ''t1'' (example_result Failure)),
      (4, AssignTask ''t1'' (example_agent ''a2'')), (5, StartTask ''t1''),
      (6, CompleteTask ''t1'' (example_result ResultTimeout)),
      (7, RetryTask ''t1''),
      (8, AssignTask ''t1'' (example_agent ''a1'')), (9, StartTask ''t1''),
      (10, CompleteTask ''t1'' (example_result Failure)),
      (11, CancelTask ''t1''), (12, StartTask ''t1'')]"

text \<open>Four calls on a task that is already cancelled.\<close>

definition example_late_calls :: "(int \<times> tracker_op) list" where
  "example_late_calls =
     [(2, AssignTask ''t1'' (example_agent ''a1'')), (3, StartTask ''t1''),
      (4, RetryTask ''t1''), (5, CancelTask ''t1'')]"

section \<open>Security manager (security.ts)\<close>

datatype AgentPermission =
    PermTaskAssign | PermTaskCancel | PermRoleAssign | PermRoleManage
  | PermAgentRegister | PermAgentUnregister | PermWorkflowCreate | PermWorkflowAbort
  | PermConfigRead | PermConfigWrite | PermReportRead | PermReportExport

record AgentSecurityPolicy =
  agentId :: string
  permissions :: "AgentPermission list"
  networkAllowlist :: "string list"
  maxConcurrentTasks :: int
  maxMessagesPerMinute :: int
  allowCrossGateway :: bool

record SecurityAuditEntry =
  timestamp :: int
  agentId :: string
  action :: string
  allowed :: bool
  reason :: "string option"
  sourceIp :: "string option"

record RateLimitEntry =
  count :: int
  windowStart :: int

record AgentSecurityManager =
  policies :: "(string, AgentSecurityPolicy) js_map"
  sharedSecret :: string
  auditLog :: "SecurityAuditEntry list"
  auditTrimPending :: bool
  rateLimiter :: "(string, RateLimitEntry) js_map"

definition DEFAULT_PERMISSIONS :: "AgentPermission list" where
  "DEFAULT_PERMISSIONS = [PermTaskAssign, PermReportRead, PermConfigRead]"

definition maxAuditEntries :: nat where
  "maxAuditEntries = 10000"

definition new_AgentSecurityManager :: "string \<Rightarrow> AgentSecurityManager" where
  "new_AgentSecurityManager secret =
     \<lparr>policies = [], sharedSecret = secret, auditLog = [], auditTrimPending = False,
      rateLimiter = []\<rparr>"

definition setPolicy :: "AgentSecurityManager \<Rightarrow> AgentSecurityPolicy \<Rightarrow> AgentSecurityManager" where
  "setPolicy s p = s\<lparr>policies := AList.update (AgentSecurityPolicy.agentId p) p (policies s)\<rparr>"

definition removePolicy :: "AgentSecurityManager \<Rightarrow> string \<Rightarrow> AgentSecurityManager" where
  "removePolicy s aid = s\<lparr>policies := AList.delete aid (policies s)\<rparr>"

definition getPolicy :: "AgentSecurityManager \<Rightarrow> string \<Rightarrow> AgentSecurityPolicy" where
  "getPolicy s aid =
     (case map_of (policies s) aid of
        Some p \<Rightarrow> p
      | None \<Rightarrow>
          \<lparr>AgentSecurityPolicy.agentId = aid,
           permissions = DEFAULT_PERMISSIONS,
           networkAllowlist = [],
           maxConcurrentTasks = 8,
           maxMessagesPerMinute = 120,
           allowCrossGateway = False\<rparr>)"

text \<open>
  \<^verbatim>\<open>logAudit\<close> pushes the entry and, when the log has grown past its cap and no trim is
  pending, sets the flag and queues the trim as a microtask; the microtask is the separate
  step \<open>auditTrimMicrotask\<close>, run by the host after the current call has returned.
\<close>

definition logAudit :: "AgentSecurityManager \<Rightarrow> SecurityAuditEntry \<Rightarrow> AgentSecurityManager" where
  "logAudit s entry =
     (let s1 = s\<lparr>auditLog := auditLog s @ [entry]\<rparr>
      in if length (auditLog s1) > maxAuditEntries \<and> \<not> auditTrimPending s1
         then s1\<lparr>auditTrimPending := True\<rparr>
         else s1)"

definition auditTrimMicrotask :: "AgentSecurityManager \<Rightarrow> AgentSecurityManager" where
  "auditTrimMicrotask s =
     (let s1 = (if length (auditLog s) > maxAuditEntries
                then s\<lparr>auditLog := drop (nat \<lfloor>real maxAuditEntries * 0.2\<rfloor>) (auditLog s)\<rparr>
                else s)
      in s1\<lparr>auditTrimPending := False\<rparr>)"

text \<open>
  The decimal text a template literal prints for an integer count or limit (both stay far
  below the range where a number prints in exponent form).
\<close>

definition digit_char :: "nat \<Rightarrow> char" where
  "digit_char d = ''0123456789'' ! d"

function decimal_text :: "nat \<Rightarrow> string" where
  "decimal_text n =
     (if 10 \<le> n then decimal_text (n div 10) @ [digit_char (n mod 10)] else [digit_char n])"
  by pat_completeness auto
termination
  by (relation "measure (\<lambda>n. n)") auto

declare decimal_text.simps [simp del]

definition string_of_int :: "int \<Rightarrow> string" where
  "string_of_int i = (if i < 0 then ''-'' @ decimal_text (nat (- i)) else decimal_text (nat i))"

definition windowMs :: int where
  "windowMs = 60000"

definition checkRateLimit :: "AgentSecurityManager \<Rightarrow> int \<Rightarrow> string \<Rightarrow> bool \<times> AgentSecurityManager" where
  "checkRateLimit s now aid =
     (let policy = getPolicy s aid;
          fresh = \<lparr>count = 0, windowStart = now\<rparr>;
          entry = (case map_of (rateLimiter s) aid of
                     None \<Rightarrow> fresh
                   | Some e \<Rightarrow> if now - windowStart e > windowMs then fresh else e);
          entry' = entry\<lparr>count := count entry + 1\<rparr>;
          s1 = s\<lparr>rateLimiter := AList.update aid entry' (rateLimiter s)\<rparr>;
          ok = (count entry' \<le> maxMessagesPerMinute policy)
      in if \<not> ok
         then (False,
               logAudit s1
                 \<lparr>timestamp = now, agentId = aid, action = ''rate-limit.exceeded'',
                  allowed = False,
                  reason = Some (string_of_int (count entry') @ ''/''
                                 @ string_of_int (maxMessagesPerMinute policy) @ '' msgs/min''),
                  sourceIp = None\<rparr>)
         else (True, s1))"

text \<open>A run of \<^verbatim>\<open>checkRateLimit(aid)\<close> calls at the given clock values; the results in order.\<close>

fun checkRateLimit_run :: "AgentSecurityManager \<Rightarrow> string \<Rightarrow> int list \<Rightarrow> bool list \<times> AgentSecurityManager" where
  "checkRateLimit_run s aid [] = ([], s)"
| "checkRateLimit_run s aid (t # ts) =
     (let (ok, s1) = checkRateLimit s t aid;
          (oks, s2) = checkRateLimit_run s1 aid ts
      in (ok # oks, s2))"

definition example_policy :: "int \<Rightarrow> AgentSecurityPolicy" where
  "example_policy k =
     \<lparr>AgentSecurityPolicy.agentId = ''fast-agent'', permissions = [], networkAllowlist = [],
      maxConcurrentTasks = 1, maxMessagesPerMinute = k, allowCrossGateway = False\<rparr>"

definition example_security :: "int \<Rightarrow> AgentSecurityManager" where
  "example_security k = setPolicy (new_AgentSecurityManager ''test-secret-key'') (example_policy k)"

text \<open>
  The library calls the manager makes: \<^verbatim>\<open>createHmac("sha256", key).update(data).digest("base64")\<close>,
  \<^verbatim>\<open>JSON.stringify({ messageId, payload })\<close> and \<^verbatim>\<open>Buffer.from(text, "base64")\<close>. They are
  not code of the repository and are taken as parameters.
\<close>

record node_lib =
  hmac_sha256_base64 :: "string \<Rightarrow> string \<Rightarrow> string"
  json_stringify :: "string \<Rightarrow> MultiAgentPayload \<Rightarrow> string"
  base64_decode :: "string \<Rightarrow> string"

definition signMessage :: "node_lib \<Rightarrow> AgentSecurityManager \<Rightarrow> MessageEnvelope \<Rightarrow> MultiAgentPayload \<Rightarrow> string" where
  "signMessage L s e p =
     hmac_sha256_base64 L (sharedSecret s) (json_stringify L (messageId e) p)"

text \<open>
  \<^verbatim>\<open>timingSafeEqual\<close> throws on buffers of different length; the \<^verbatim>\<open>catch\<close> turns that into
  \<^verbatim>\<open>false\<close>.
\<close>

definition verifySignature :: "node_lib \<Rightarrow> AgentSecurityManager \<Rightarrow> MessageEnvelope \<Rightarrow> MultiAgentPayload \<Rightarrow> bool" where
  "verifySignature L s e p =
     (case signature e of
        None \<Rightarrow> False
      | Some sg \<Rightarrow>
          if sg = [] then False
          else
            (let expected = signMessage L s e p;
                 a = base64_decode L sg;
                 b = base64_decode L expected
             in if length a \<noteq> length b then False else a = b))"


definition payloadToPermission :: "string \<Rightarrow> AgentPermission option" where
  "payloadToPermission payloadType =
     (if payloadType = ''task.assign'' then Some PermTaskAssign
      else if payloadType = ''role.assign'' then Some PermRoleAssign
      else if payloadType = ''agent.discovery'' then Some PermAgentRegister
      else if payloadType = ''task.result'' \<or> payloadType = ''task.progress''
              \<or> payloadType = ''heartbeat'' then None
      else None)"

definition permission_name :: "AgentPermission \<Rightarrow> string" where
  "permission_name p =
     (case p of
        PermTaskAssign \<Rightarrow> ''task.assign'' | PermTaskCancel \<Rightarrow> ''task.cancel''
      | PermRoleAssign \<Rightarrow> ''role.assign'' | PermRoleManage \<Rightarrow> ''role.manage''
      | PermAgentRegister \<Rightarrow> ''agent.register'' | PermAgentUnregister \<Rightarrow> ''agent.unregister''
      | PermWorkflowCreate \<Rightarrow> ''workflow.create'' | PermWorkflowAbort \<Rightarrow> ''workflow.abort''
      | PermConfigRead \<Rightarrow> ''config.read'' | PermConfigWrite \<Rightarrow> ''config.write''
      | PermReportRead \<Rightarrow> ''report.read'' | PermReportExport \<Rightarrow> ''report.export'')"

definition hasPermission :: "AgentSecurityManager \<Rightarrow> int \<Rightarrow> string \<Rightarrow> AgentPermission \<Rightarrow> bool \<times> AgentSecurityManager" where
  "hasPermission s now aid perm =
     (let policy = getPolicy s aid;
          ok = (perm \<in> set (permissions policy))
      in (ok,
          logAudit s
            \<lparr>timestamp = now, agentId = aid,
             action = ''permission.check:'' @ permission_name perm,
             allowed = ok,
             reason = (if ok then None else Some (''missing permission: '' @ permission_name perm)),
             sourceIp = None\<rparr>))"

text \<open>
  The result \<^verbatim>\<open>{ allowed, reason? }\<close> is a pair. The clock readings of the one call are
  taken to be the same value \<open>now\<close>.
\<close>

definition authorizeMessage :: "node_lib \<Rightarrow> AgentSecurityManager \<Rightarrow> int \<Rightarrow> MultiAgentMessage \<Rightarrow> (bool \<times> string option) \<times> AgentSecurityManager" where
  "authorizeMessage L s now msg =
     (let fromId = agentConfigId (env_from (envelope msg));
          policy = getPolicy s fromId;
          (ok, s1) = checkRateLimit s now fromId
      in if \<not> ok then ((False, Some ''rate limit exceeded''), s1)
         else
           (let isCrossGateway =
                  (case env_to (envelope msg) of
                     None \<Rightarrow> True
                   | Some t \<Rightarrow>
                       MultiAgentIdentity.gatewayId (env_from (envelope msg))
                         \<noteq> MultiAgentIdentity.gatewayId t)
            in if isCrossGateway \<and> \<not> allowCrossGateway policy
               then ((False, Some ''cross-gateway communication not allowed''),
                     logAudit s1
                       \<lparr>timestamp = now, agentId = fromId, action = ''cross-gateway.denied'',
                        allowed = False,
                        reason = Some ''cross-gateway communication not allowed'',
                        sourceIp = None\<rparr>)
               else if truthy (signature (envelope msg))
                       \<and> \<not> verifySignature L s1 (envelope msg) (payload msg)
               then ((False, Some ''invalid message signature''),
                     logAudit s1
                       \<lparr>timestamp = now, agentId = fromId, action = ''signature.invalid'',
                        allowed = False, reason = None, sourceIp = None\<rparr>)
               else
                 (case payloadToPermission (payload_type (payload msg)) of
                    None \<Rightarrow> ((True, None), s1)
                  | Some perm \<Rightarrow>
                      if perm \<notin> set (permissions policy)
                      then ((False, Some (''missing permission: '' @ permission_name perm)), s1)
                      else ((True, None), s1))))"

text \<open>The number of calls of a run that were allowed.\<close>

fun allowed_calls :: "bool list \<Rightarrow> nat" where
  "allowed_calls [] = 0"
| "allowed_calls (ok # oks) = (if ok then Suc (allowed_calls oks) else allowed_calls oks)"

definition allowed_in_window :: "bool list \<Rightarrow> int list \<Rightarrow> int \<Rightarrow> nat" where
  "allowed_in_window oks ts w =
     length (filter (\<lambda>(ok, t). ok \<and> w \<le> t \<and> t < w + windowMs) (zip oks ts))"


subsection \<open>Concrete messages\<close>

text \<open>
  A stand-in for the three library calls, used only where a concrete evaluation needs the
  parameter filled in: the tag is the key followed by the signed text, and decoding is the
  identity.
\<close>

definition example_lib :: node_lib where
  "example_lib =
     \<lparr>hmac_sha256_base64 = (\<lambda>k d. k @ d),
      json_stringify = (\<lambda>i p. i @ payload_type p),
      base64_decode = (\<lambda>t. t)\<rparr>"

definition example_heartbeat :: MultiAgentPayload where
  "example_heartbeat = Heartbeat \<lparr>load = None, activeTasks = None, uptimeMs = None\<rparr>"


text \<open>A broadcast (no recipient) sent by an agent with config id \<open>fast-agent\<close> on gateway \<open>gw-1\<close>.\<close>

definition example_envelope :: MessageEnvelope where
  "example_envelope =
     \<lparr>messageId = ''m1'', correlationId = ''c1'', timestamp = Some 0,
      env_from = \<lparr>agentInstanceId = ''a1'', agentConfigId = ''fast-agent'', gatewayId = ''gw-1'',
                  roleId = None, displayName = None, capabilities = None\<rparr>,
      env_to = None, direction = Broadcast, signature = None, ttlSeconds = None,
      hopCount = Some 0\<rparr>"

definition example_broadcast :: MultiAgentMessage where
  "example_broadcast = \<lparr>envelope = example_envelope, payload = example_heartbeat\<rparr>"




section \<open>Role manager (role-manager.ts)\<close>

record RoleAssignment =
  agentInstanceId :: string
  agentConfigId :: string
  gatewayId :: string
  role :: AgentRole
  assignedAt :: int
  assignedBy :: string

record RoleManager =
  roles :: "(string, AgentRole) js_map"
  assignments :: "(string, RoleAssignment) js_map"

text \<open>The texts of the built-in roles.\<close>

definition orchestrator_description :: string where
  "orchestrator_description =
     ''Coordinates work across agents. Decomposes goals into tasks, assigns them, monitors progress, and synthesizes results.''"

definition orchestrator_prompt :: string where
  "orchestrator_prompt =
     ''You are the orchestrator. Your job is to:''
     @ [CHR 0x0A]
     @ ''1. Break down the user''
     @ [CHR 0x27]
     @ ''s goal into discrete tasks''
     @ [CHR 0x0A]
     @ ''2. Assign each task to the most appropriate agent based on their role and capabilities''
     @ [CHR 0x0A]
     @ ''3. Monitor progress and handle failures (retry, reassign, or escalate)''
     @ [CHR 0x0A]
     @ ''4. Synthesize results from all agents into a coherent response''
     @ [CHR 0x0A]
     @ ''5. Never perform tasks directly ''
     @ [CHR 0xE2, CHR 0x80, CHR 0x94]
     @ '' always delegate to specialist agents''"

definition researcher_description :: string where
  "researcher_description =
     ''Gathers information from tools, APIs, and knowledge bases. Does not make changes to systems.''"

definition researcher_prompt :: string where
  "researcher_prompt =
     ''You are a researcher. Your job is to:''
     @ [CHR 0x0A]
     @ ''1. Search for and gather relevant information''
     @ [CHR 0x0A]
     @ ''2. Analyze and summarize findings''
     @ [CHR 0x0A]
     @ ''3. Provide well-sourced answers with references''
     @ [CHR 0x0A]
     @ ''4. Flag when information is uncertain or conflicting''
     @ [CHR 0x0A]
     @ ''You must NOT modify files, execute commands that change state, or make decisions ''
     @ [CHR 0xE2, CHR 0x80, CHR 0x94]
     @ '' only inform.''"

definition coder_description :: string where
  "coder_description =
     ''Writes, modifies, and reviews code. Has access to filesystem and execution tools within sandboxed environments.''"

definition coder_prompt :: string where
  "coder_prompt =
     ''You are a coder. Your job is to:''
     @ [CHR 0x0A]
     @ ''1. Write clean, well-tested, idiomatic code''
     @ [CHR 0x0A]
     @ ''2. Follow the project''
     @ [CHR 0x27]
     @ ''s coding standards and patterns''
     @ [CHR 0x0A]
     @ ''3. Run tests after making changes''
     @ [CHR 0x0A]
     @ ''4. Report results clearly with file paths and line numbers''"

definition reviewer_description :: string where
  "reviewer_description =
     ''Reviews work products from other agents. Checks for correctness, security, and adherence to standards.''"

definition reviewer_prompt :: string where
  "reviewer_prompt =
     ''You are a reviewer. Your job is to:''
     @ [CHR 0x0A]
     @ ''1. Review code, documents, or other artifacts for quality''
     @ [CHR 0x0A]
     @ ''2. Check for security vulnerabilities, bugs, and anti-patterns''
     @ [CHR 0x0A]
     @ ''3. Verify adherence to project standards''
     @ [CHR 0x0A]
     @ ''4. Provide specific, actionable feedback''
     @ [CHR 0x0A]
     @ ''You must NOT make changes directly ''
     @ [CHR 0xE2, CHR 0x80, CHR 0x94]
     @ '' only review and report findings.''"

definition monitor_description :: string where
  "monitor_description =
     ''Observes system health, tracks task progress, and raises alerts on anomalies or deadline risks.''"

definition monitor_prompt :: string where
  "monitor_prompt =
     ''You are a monitor. Your job is to:''
     @ [CHR 0x0A]
     @ ''1. Track the status of all active tasks and agents''
     @ [CHR 0x0A]
     @ ''2. Detect anomalies (stalled tasks, high error rates, resource exhaustion)''
     @ [CHR 0x0A]
     @ ''3. Report progress summaries periodically''
     @ [CHR 0x0A]
     @ ''4. Alert the orchestrator about deadline risks or failures''"

definition executor_description :: string where
  "executor_description =
     ''Executes approved commands and scripts. Only acts on explicit, pre-approved instructions.''"

definition executor_prompt :: string where
  "executor_prompt =
     ''You are an executor. Your job is to:''
     @ [CHR 0x0A]
     @ ''1. Execute commands that have been explicitly approved''
     @ [CHR 0x0A]
     @ ''2. Report execution results faithfully''
     @ [CHR 0x0A]
     @ ''3. Stop immediately if a command fails and report the error''
     @ [CHR 0x0A]
     @ ''4. Never improvise or execute unapproved actions''"

definition read_only_denied :: "string list" where
  "read_only_denied = [''exec'', ''fs_write'', ''fs_delete'', ''fs_move'', ''apply_patch'']"

definition BUILT_IN_ROLES :: "AgentRole list" where
  "BUILT_IN_ROLES =
     [\<lparr>AgentRole.roleId = ''orchestrator'', name = ''Orchestrator'',
       description = Some orchestrator_description,
       systemPromptFragment = Some orchestrator_prompt,
       allowedTools = Some [], deniedTools = None,
       maxConcurrent = Some 2, priority = Some 100\<rparr>,
      \<lparr>AgentRole.roleId = ''researcher'', name = ''Researcher'',
       description = Some researcher_description,
       systemPromptFragment = Some researcher_prompt,
       allowedTools = None, deniedTools = Some read_only_denied,
       maxConcurrent = None, priority = Some 50\<rparr>,
      \<lparr>AgentRole.roleId = ''coder'', name = ''Coder'',
       description = Some coder_description,
       systemPromptFragment = Some coder_prompt,
       allowedTools = None, deniedTools = None,
       maxConcurrent = None, priority = Some 60\<rparr>,
      \<lparr>AgentRole.roleId = ''reviewer'', name = ''Reviewer'',
       description = Some reviewer_description,
       systemPromptFragment = Some reviewer_prompt,
       allowedTools = None, deniedTools = Some read_only_denied,
       maxConcurrent = None, priority = Some 70\<rparr>,
      \<lparr>AgentRole.roleId = ''monitor'', name = ''Monitor'',
       description = Some monitor_description,
       systemPromptFragment = Some monitor_prompt,
       allowedTools = None, deniedTools = Some read_only_denied,
       maxConcurrent = Some 1, priority = Some 80\<rparr>,
      \<lparr>AgentRole.roleId = ''executor'', name = ''Executor'',
       description = Some executor_description,
       systemPromptFragment = Some executor_prompt,
       allowedTools = None, deniedTools = None,
       maxConcurrent = Some 4, priority = Some 40\<rparr>]"

text \<open>\<^verbatim>\<open>for (const role of list) map.set(role.roleId, role)\<close>\<close>

definition set_roles :: "AgentRole list \<Rightarrow> (string, AgentRole) js_map \<Rightarrow> (string, AgentRole) js_map" where
  "set_roles rs m = foldl (\<lambda>acc r. AList.update (AgentRole.roleId r) r acc) m rs"

text \<open>\<^verbatim>\<open>for (const assignment of list) map.set(assignment.agentInstanceId, assignment)\<close>\<close>

definition set_assignments :: "RoleAssignment list \<Rightarrow> (string, RoleAssignment) js_map \<Rightarrow> (string, RoleAssignment) js_map" where
  "set_assignments as m =
     foldl (\<lambda>acc a. AList.update (RoleAssignment.agentInstanceId a) a acc) m as"

definition new_RoleManager :: RoleManager where
  "new_RoleManager = \<lparr>roles = set_roles BUILT_IN_ROLES [], assignments = []\<rparr>"

definition defineRole :: "RoleManager \<Rightarrow> AgentRole \<Rightarrow> RoleManager" where
  "defineRole rm r = rm\<lparr>roles := AList.update (AgentRole.roleId r) r (roles rm)\<rparr>"

definition removeRole :: "RoleManager \<Rightarrow> string \<Rightarrow> bool \<times> RoleManager" where
  "removeRole rm rid =
     (map_of (roles rm) rid \<noteq> None, rm\<lparr>roles := AList.delete rid (roles rm)\<rparr>)"

definition getRole :: "RoleManager \<Rightarrow> string \<Rightarrow> AgentRole option" where
  "getRole rm rid = map_of (roles rm) rid"

definition listRoles :: "RoleManager \<Rightarrow> AgentRole list" where
  "listRoles rm = map snd (roles rm)"

definition getAssignment :: "RoleManager \<Rightarrow> string \<Rightarrow> RoleAssignment option" where
  "getAssignment rm iid = map_of (assignments rm) iid"

definition listAssignments :: "RoleManager \<Rightarrow> RoleAssignment list" where
  "listAssignments rm = map snd (assignments rm)"

definition countAgentsWithRole :: "RoleManager \<Rightarrow> string \<Rightarrow> nat" where
  "countAgentsWithRole rm rid =
     length (filter (\<lambda>a. AgentRole.roleId (RoleAssignment.role a) = rid) (listAssignments rm))"

definition getAgentsWithRole :: "RoleManager \<Rightarrow> string \<Rightarrow> RoleAssignment list" where
  "getAgentsWithRole rm rid =
     filter (\<lambda>a. AgentRole.roleId (RoleAssignment.role a) = rid) (listAssignments rm)"

text \<open>\<^verbatim>\<open>currentAssignment?.role.roleId === roleId\<close>\<close>

definition alreadyHasRole :: "RoleManager \<Rightarrow> string \<Rightarrow> string \<Rightarrow> bool" where
  "alreadyHasRole rm iid rid =
     (case map_of (assignments rm) iid of
        None \<Rightarrow> False
      | Some cur \<Rightarrow> AgentRole.roleId (RoleAssignment.role cur) = rid)"

definition assignRole :: "RoleManager \<Rightarrow> int \<Rightarrow> MultiAgentIdentity \<Rightarrow> string \<Rightarrow> string \<Rightarrow> RoleAssignment option \<times> RoleManager" where
  "assignRole rm now ag rid assigner =
     (case map_of (roles rm) rid of
        None \<Rightarrow> (None, rm)
      | Some r \<Rightarrow>
          if (case maxConcurrent r of
                None \<Rightarrow> False
              | Some k \<Rightarrow>
                  \<not> alreadyHasRole rm (MultiAgentIdentity.agentInstanceId ag) rid
                  \<and> int (countAgentsWithRole rm rid) \<ge> k)
          then (None, rm)
          else
            (let a = \<lparr>RoleAssignment.agentInstanceId = MultiAgentIdentity.agentInstanceId ag,
                      agentConfigId = MultiAgentIdentity.agentConfigId ag,
                      gatewayId = MultiAgentIdentity.gatewayId ag,
                      role = r,
                      assignedAt = now,
                      assignedBy = assigner\<rparr>
             in (Some a,
                 rm\<lparr>assignments :=
                      AList.update (MultiAgentIdentity.agentInstanceId ag) a (assignments rm)\<rparr>)))"

definition unassignRole :: "RoleManager \<Rightarrow> string \<Rightarrow> bool \<times> RoleManager" where
  "unassignRole rm iid =
     (map_of (assignments rm) iid \<noteq> None,
      rm\<lparr>assignments := AList.delete iid (assignments rm)\<rparr>)"

definition exportState :: "RoleManager \<Rightarrow> AgentRole list \<times> RoleAssignment list" where
  "exportState rm = (listRoles rm, listAssignments rm)"

definition importState :: "RoleManager \<Rightarrow> AgentRole list \<Rightarrow> RoleAssignment list \<Rightarrow> RoleManager" where
  "importState rm rs as = \<lparr>roles = set_roles rs [], assignments = set_assignments as []\<rparr>"

subsection \<open>Sequences of role-manager operations and the quota\<close>

datatype role_op =
    DefineRole AgentRole
  | RemoveRole string
  | AssignRole MultiAgentIdentity string string
  | UnassignRole string
  | ImportState "AgentRole list" "RoleAssignment list"

fun apply_role_op :: "RoleManager \<Rightarrow> int \<times> role_op \<Rightarrow> RoleManager" where
  "apply_role_op rm (now, DefineRole r) = defineRole rm r"
| "apply_role_op rm (now, RemoveRole rid) = snd (removeRole rm rid)"
| "apply_role_op rm (now, AssignRole ag rid assigner) = snd (assignRole rm now ag rid assigner)"
| "apply_role_op rm (now, UnassignRole iid) = snd (unassignRole rm iid)"
| "apply_role_op rm (now, ImportState rs as) = importState rm rs as"

definition run_role_ops :: "RoleManager \<Rightarrow> (int \<times> role_op) list \<Rightarrow> RoleManager" where
  "run_role_ops rm ops = foldl apply_role_op rm ops"

text \<open>
  The quota: every defined role with \<^verbatim>\<open>maxConcurrent = k\<close> has at most \<open>k\<close> assignments whose
  role carries its \<^verbatim>\<open>roleId\<close>.
\<close>

definition within_quota :: "RoleManager \<Rightarrow> AgentRole \<Rightarrow> bool" where
  "within_quota rm r =
     (case maxConcurrent r of
        None \<Rightarrow> True
      | Some k \<Rightarrow> int (countAgentsWithRole rm (AgentRole.roleId r)) \<le> k)"

definition quota_holds :: "RoleManager \<Rightarrow> bool" where
  "quota_holds rm = list_all (within_quota rm) (listRoles rm)"

text \<open>
  The calls that check nothing: \<^verbatim>\<open>defineRole\<close> is harmless when the role it stores is within
  its quota at that moment, \<^verbatim>\<open>importState\<close> when the state it installs is.
\<close>

fun respects_quota :: "RoleManager \<Rightarrow> role_op \<Rightarrow> bool" where
  "respects_quota rm (DefineRole r) = within_quota rm r"
| "respects_quota rm (ImportState rs as) = quota_holds (importState rm rs as)"
| "respects_quota rm _ = True"

fun quota_respecting_run :: "RoleManager \<Rightarrow> (int \<times> role_op) list \<Rightarrow> bool" where
  "quota_respecting_run rm [] = True"
| "quota_respecting_run rm (x # xs) =
     (respects_quota rm (snd x) \<and> quota_respecting_run (apply_role_op rm x) xs)"

text \<open>Map keys are unique, and every role is stored under its own \<^verbatim>\<open>roleId\<close>.\<close>

definition roles_keyed :: "RoleManager \<Rightarrow> bool" where
  "roles_keyed rm =
     (distinct (map fst (roles rm)) \<and> list_all (\<lambda>(k, r). AgentRole.roleId r = k) (roles rm))"

definition example_coder_quota_1 :: AgentRole where
  "example_coder_quota_1 =
     \<lparr>AgentRole.roleId = ''coder'', name = ''Coder'', description = None,
      systemPromptFragment = None, allowedTools = None, deniedTools = None,
      maxConcurrent = Some 1, priority = Some 60\<rparr>"

definition example_monitor :: AgentRole where
  "example_monitor =
     \<lparr>AgentRole.roleId = ''monitor'', name = ''Monitor'',
      description = Some monitor_description, systemPromptFragment = Some monitor_prompt,
      allowedTools = None,
      deniedTools = Some read_only_denied, maxConcurrent = Some 1, priority = Some 80\<rparr>"

definition example_assignment :: "string \<Rightarrow> AgentRole \<Rightarrow> RoleAssignment" where
  "example_assignment i r =
     \<lparr>RoleAssignment.agentInstanceId = i, agentConfigId = ''test-agent'', gatewayId = ''gw-1'',
      role = r, assignedAt = 0, assignedBy = ''admin''\<rparr>"

text \<open>
  The quota scenario: \<open>a1\<close> takes \<open>monitor\<close> (quota 1), \<open>a2\<close> is refused, \<open>a1\<close> is assigned
  again, \<open>a1\<close> is unassigned, \<open>a2\<close> succeeds.
\<close>

definition example_role_ops :: "(int \<times> role_op) list" where
  "example_role_ops =
     [(1, AssignRole (example_agent ''a1'') ''monitor'' ''admin''),
      (2, AssignRole (example_agent ''a2'') ''monitor'' ''admin''),
      (3, AssignRole (example_agent ''a1'') ''monitor'' ''admin''),
      (4, UnassignRole ''a1''),
      (5, AssignRole (example_agent ''a2'') ''monitor'' ''admin'')]"

section \<open>Message router (message-router.ts)\<close>

datatype PeerStatus = Connected | Connecting | Disconnected

record PeerGateway =
  gatewayId :: string
  endpoint :: string
  publicKey :: "string option"
  lastSeen :: int
  status :: PeerStatus

text \<open>
  A handler is a callback supplied by the subscriber; the router only calls it. The model
  keeps an identifier for it and records each call as an effect.
\<close>

record Subscription =
  payloadType :: "string option"
  fromAgentConfigId :: "string option"
  fromRoleId :: "string option"
  handler :: nat

datatype router_effect =
    HandlerCall Subscription MultiAgentMessage
  | SendToPeer PeerGateway MultiAgentMessage

definition MAX_HOP_COUNT :: int where
  "MAX_HOP_COUNT = 16"

definition maxSeenSize :: nat where
  "maxSeenSize = 10000"

record MessageRouter =
  localGatewayId :: string
  subscriptions :: "Subscription list"
  peerGateways :: "(string, PeerGateway) js_map"
  localAgents :: "(string, MultiAgentIdentity) js_map"
  seenMessages :: "string list"

definition new_MessageRouter :: "string \<Rightarrow> MessageRouter" where
  "new_MessageRouter gw =
     \<lparr>localGatewayId = gw, subscriptions = [], peerGateways = [], localAgents = [],
      seenMessages = []\<rparr>"

definition registerLocalAgent :: "MessageRouter \<Rightarrow> MultiAgentIdentity \<Rightarrow> MessageRouter" where
  "registerLocalAgent r ag =
     r\<lparr>localAgents := AList.update (MultiAgentIdentity.agentInstanceId ag) ag (localAgents r)\<rparr>"

definition unregisterLocalAgent :: "MessageRouter \<Rightarrow> string \<Rightarrow> MessageRouter" where
  "unregisterLocalAgent r iid = r\<lparr>localAgents := AList.delete iid (localAgents r)\<rparr>"

definition getLocalAgents :: "MessageRouter \<Rightarrow> MultiAgentIdentity list" where
  "getLocalAgents r = map snd (localAgents r)"

definition registerPeer :: "MessageRouter \<Rightarrow> PeerGateway \<Rightarrow> MessageRouter" where
  "registerPeer r p = r\<lparr>peerGateways := AList.update (PeerGateway.gatewayId p) p (peerGateways r)\<rparr>"

definition removePeer :: "MessageRouter \<Rightarrow> string \<Rightarrow> MessageRouter" where
  "removePeer r gw = r\<lparr>peerGateways := AList.delete gw (peerGateways r)\<rparr>"

definition getPeers :: "MessageRouter \<Rightarrow> PeerGateway list" where
  "getPeers r = map snd (peerGateways r)"

definition subscribe :: "MessageRouter \<Rightarrow> Subscription \<Rightarrow> MessageRouter" where
  "subscribe r sub = r\<lparr>subscriptions := subscriptions r @ [sub]\<rparr>"

text \<open>
  \<^verbatim>\<open>trackSeen\<close>: add the id; past 10000 entries, delete the oldest
  \<^verbatim>\<open>size - floor(10000 * 0.8)\<close> entries in insertion order.
\<close>

definition trackSeen :: "MessageRouter \<Rightarrow> string \<Rightarrow> MessageRouter" where
  "trackSeen r mid =
     (let seen = set_add mid (seenMessages r)
      in if length seen > maxSeenSize
         then r\<lparr>seenMessages := drop (length seen - nat \<lfloor>real maxSeenSize * 0.8\<rfloor>) seen\<rparr>
         else r\<lparr>seenMessages := seen\<rparr>)"

text \<open>The three filters of a subscription; an absent or empty filter matches everything.\<close>

definition subscription_matches :: "Subscription \<Rightarrow> MultiAgentMessage \<Rightarrow> bool" where
  "subscription_matches sub msg =
     (\<not> (truthy (payloadType sub) \<and> payloadType sub \<noteq> Some (payload_type (payload msg)))
      \<and> \<not> (truthy (fromAgentConfigId sub)
             \<and> fromAgentConfigId sub
                 \<noteq> Some (MultiAgentIdentity.agentConfigId (env_from (envelope msg))))
      \<and> \<not> (truthy (fromRoleId sub)
             \<and> fromRoleId sub \<noteq> MultiAgentIdentity.roleId (env_from (envelope msg))))"

definition deliverLocally :: "MessageRouter \<Rightarrow> MultiAgentMessage \<Rightarrow> router_effect list" where
  "deliverLocally r msg =
     map (\<lambda>sub. HandlerCall sub msg) (filter (\<lambda>sub. subscription_matches sub msg) (subscriptions r))"

definition bump_hop :: "MultiAgentMessage \<Rightarrow> MultiAgentMessage" where
  "bump_hop msg =
     msg\<lparr>envelope :=
           (envelope msg)\<lparr>hopCount :=
              Some ((case hopCount (envelope msg) of None \<Rightarrow> 0 | Some h \<Rightarrow> h) + 1)\<rparr>\<rparr>"

definition forwardToRemote :: "MessageRouter \<Rightarrow> MultiAgentMessage \<Rightarrow> router_effect list" where
  "forwardToRemote r msg =
     (let bumped = bump_hop msg
      in map (\<lambda>peer. SendToPeer peer bumped)
           (filter
              (\<lambda>peer. PeerGateway.status peer = Connected
                 \<and> \<not> (case env_to (envelope bumped) of
                         None \<Rightarrow> False
                       | Some t \<Rightarrow> MultiAgentIdentity.gatewayId t \<noteq> PeerGateway.gatewayId peer))
              (getPeers r)))"

text \<open>
  \<^verbatim>\<open>age = (Date.now() - new Date(timestamp).getTime()) / 1000\<close>; with an unparsable
  timestamp the comparison with NaN is false and the message is not dropped.
\<close>

definition ttl_expired :: "int \<Rightarrow> MessageEnvelope \<Rightarrow> bool" where
  "ttl_expired now e =
     (case ttlSeconds e of
        None \<Rightarrow> False
      | Some ttl \<Rightarrow>
          (case MessageEnvelope.timestamp e of
             None \<Rightarrow> False
           | Some ts \<Rightarrow> real_of_int (now - ts) / 1000 > real_of_int ttl))"

definition route :: "MessageRouter \<Rightarrow> int \<Rightarrow> MultiAgentMessage \<Rightarrow> router_effect list \<times> MessageRouter" where
  "route r now msg =
     (let e = envelope msg
      in if messageId e \<in> set (seenMessages r) then ([], r)
         else
           (let r1 = trackSeen r (messageId e)
            in if ttl_expired now e then ([], r1)
               else if (case hopCount e of None \<Rightarrow> 0 | Some h \<Rightarrow> h) \<ge> MAX_HOP_COUNT then ([], r1)
               else
                 (let isLocalTarget =
                        (case env_to e of
                           None \<Rightarrow> True
                         | Some t \<Rightarrow> MultiAgentIdentity.gatewayId t = localGatewayId r);
                      isRemoteTarget =
                        (case env_to e of
                           None \<Rightarrow> False
                         | Some t \<Rightarrow> MultiAgentIdentity.gatewayId t \<noteq> localGatewayId r);
                      local = (if isLocalTarget \<or> direction e = Broadcast
                               then deliverLocally r1 msg else []);
                      remote = (if isRemoteTarget \<or> direction e = Broadcast
                                then forwardToRemote r1 msg else [])
                  in (local @ remote, r1))))"

text \<open>
  \<^verbatim>\<open>send\<close>: the two \<^verbatim>\<open>randomUUID()\<close> results are the arguments \<open>mid\<close> and \<open>cid\<close>; the
  timestamp written is the clock value, which is what parsing it back gives.
\<close>

record SendOpts =
  correlationId :: "string option"
  direction :: "MessageDirection option"
  ttlSeconds :: "int option"

definition send :: "MessageRouter \<Rightarrow> int \<Rightarrow> string \<Rightarrow> string \<Rightarrow> MultiAgentIdentity \<Rightarrow> MultiAgentIdentity option \<Rightarrow> MultiAgentPayload \<Rightarrow> SendOpts \<Rightarrow> MessageEnvelope \<times> router_effect list \<times> MessageRouter" where
  "send r now mid cid sender recipient pl opts =
     (let e = \<lparr>messageId = mid,
               correlationId = (case SendOpts.correlationId opts of None \<Rightarrow> cid | Some c \<Rightarrow> c),
               timestamp = Some now,
               env_from = sender,
               env_to = recipient,
               direction = (case SendOpts.direction opts of
                              Some d \<Rightarrow> d
                            | None \<Rightarrow> (case recipient of Some _ \<Rightarrow> Request | None \<Rightarrow> Broadcast)),
               signature = None,
               ttlSeconds = SendOpts.ttlSeconds opts,
               hopCount = Some 0\<rparr>;
          (effects, r1) = route r now \<lparr>envelope = e, payload = pl\<rparr>
      in (e, effects, r1))"

subsection \<open>Concrete routers\<close>

definition example_peer :: "string \<Rightarrow> PeerGateway" where
  "example_peer gw =
     \<lparr>PeerGateway.gatewayId = gw, endpoint = ''wss://peer'', publicKey = None, lastSeen = 0,
      status = Connected\<rparr>"

definition subscribe_all :: Subscription where
  "subscribe_all = \<lparr>payloadType = None, fromAgentConfigId = None, fromRoleId = None, handler = 0\<rparr>"

text \<open>Gateway \<open>gw-1\<close> with one subscriber to everything and one connected peer \<open>gw-2\<close>.\<close>

definition example_router :: MessageRouter where
  "example_router =
     registerPeer (subscribe (new_MessageRouter ''gw-1'') subscribe_all) (example_peer ''gw-2'')"

text \<open>The broadcast of the security examples, arriving with sixteen hops behind it.\<close>

definition example_hop16 :: MultiAgentMessage where
  "example_hop16 = example_broadcast\<lparr>envelope := example_envelope\<lparr>hopCount := Some 16\<rparr>\<rparr>"

section \<open>Orchestrator (orchestrator.ts)\<close>

record OrchestratorConfig =
  gatewayId :: string
  heartbeatIntervalMs :: int
  cleanupIntervalMs :: int
  taskMaxAgeMs :: int

datatype OrchestratorEvent =
    AgentJoined MultiAgentIdentity
  | AgentLeft string
  | RoleAssigned string string
  | TaskCreated string
  | TaskAssigned string string
  | TaskProgressed string "real option"
  | TaskCompleted string ResultStatus
  | WorkflowCompleted string

text \<open>
  What an orchestrator call does to the outside: the events it emits to its listeners and
  the handler calls and peer sends of its router, in order.
\<close>

datatype orchestrator_effect = Emit OrchestratorEvent | Routed router_effect

record StoredHeartbeat = HeartbeatPayload +
  receivedAt :: int

text \<open>The timers are left out; the listeners are outside code and appear only in the effects.\<close>

record MultiAgentOrchestrator =
  config :: OrchestratorConfig
  roleManager :: RoleManager
  router :: MessageRouter
  workTracker :: WorkTracker
  securityManager :: AgentSecurityManager
  agentHeartbeats :: "(string, StoredHeartbeat) js_map"

text \<open>The four subscriptions of \<^verbatim>\<open>setupMessageHandlers\<close>, with handler identifiers 0 to 3.\<close>

definition builtin_subscriptions :: "Subscription list" where
  "builtin_subscriptions =
     [\<lparr>payloadType = Some ''task.result'', fromAgentConfigId = None, fromRoleId = None, handler = 0\<rparr>,
      \<lparr>payloadType = Some ''task.progress'', fromAgentConfigId = None, fromRoleId = None, handler = 1\<rparr>,
      \<lparr>payloadType = Some ''heartbeat'', fromAgentConfigId = None, fromRoleId = None, handler = 2\<rparr>,
      \<lparr>payloadType = Some ''agent.discovery'', fromAgentConfigId = None, fromRoleId = None, handler = 3\<rparr>]"

definition new_MultiAgentOrchestrator :: "string \<Rightarrow> string \<Rightarrow> MultiAgentOrchestrator" where
  "new_MultiAgentOrchestrator gw secret =
     \<lparr>config = \<lparr>OrchestratorConfig.gatewayId = gw, heartbeatIntervalMs = 30000,
                 cleanupIntervalMs = 3600000, taskMaxAgeMs = 86400000\<rparr>,
      roleManager = new_RoleManager,
      router = foldl subscribe (new_MessageRouter gw) builtin_subscriptions,
      workTracker = new_WorkTracker,
      securityManager = new_AgentSecurityManager secret,
      agentHeartbeats = []\<rparr>"

definition getOrchestratorIdentity :: "MultiAgentOrchestrator \<Rightarrow> MultiAgentIdentity" where
  "getOrchestratorIdentity orc =
     \<lparr>MultiAgentIdentity.agentInstanceId = ''00000000-0000-0000-0000-000000000000'',
      agentConfigId = ''__orchestrator__'',
      gatewayId = OrchestratorConfig.gatewayId (config orc),
      roleId = Some ''orchestrator'',
      displayName = Some ''Orchestrator'',
      capabilities = None\<rparr>"

text \<open>The heartbeat handler: the payload is stored under the sender's instance id.\<close>

definition on_heartbeat :: "MultiAgentOrchestrator \<Rightarrow> int \<Rightarrow> MultiAgentIdentity \<Rightarrow> HeartbeatPayload \<Rightarrow> MultiAgentOrchestrator" where
  "on_heartbeat orc now sender hb =
     orc\<lparr>agentHeartbeats :=
           AList.update (MultiAgentIdentity.agentInstanceId sender)
             (HeartbeatPayload.extend hb \<lparr>receivedAt = now\<rparr>)
             (agentHeartbeats orc)\<rparr>"

subsection \<open>Agent selection\<close>

record WithLoad =
  agent :: MultiAgentIdentity
  load :: real
  priority :: int

definition with_load :: "MultiAgentOrchestrator \<Rightarrow> MultiAgentIdentity \<Rightarrow> WithLoad" where
  "with_load orc ag =
     \<lparr>WithLoad.agent = ag,
      load = (case map_of (agentHeartbeats orc) (MultiAgentIdentity.agentInstanceId ag) of
                None \<Rightarrow> 0
              | Some hb \<Rightarrow> (case HeartbeatPayload.load hb of None \<Rightarrow> 0 | Some l \<Rightarrow> l)),
      priority = (case getAssignment (roleManager orc) (MultiAgentIdentity.agentInstanceId ag) of
                    None \<Rightarrow> 50
                  | Some a \<Rightarrow>
                      (case AgentRole.priority (RoleAssignment.role a) of
                         None \<Rightarrow> 50
                       | Some p \<Rightarrow> p))\<rparr>"

text \<open>The comparator given to \<^verbatim>\<open>sort\<close>: lower load first, then higher priority first.\<close>

definition compare_load :: "WithLoad \<Rightarrow> WithLoad \<Rightarrow> real" where
  "compare_load a b =
     (if WithLoad.load a \<noteq> WithLoad.load b then WithLoad.load a - WithLoad.load b
      else real_of_int (WithLoad.priority b - WithLoad.priority a))"

text \<open>
  \<^verbatim>\<open>Array.prototype.sort\<close> with a comparator is a stable sort: each element, taken from the
  right, is put in front of the first element it need not follow.
\<close>

fun js_insert :: "('a \<Rightarrow> 'a \<Rightarrow> real) \<Rightarrow> 'a \<Rightarrow> 'a list \<Rightarrow> 'a list" where
  "js_insert cmp x [] = [x]"
| "js_insert cmp x (y # ys) = (if cmp x y \<le> 0 then x # y # ys else y # js_insert cmp x ys)"

definition js_sort :: "('a \<Rightarrow> 'a \<Rightarrow> real) \<Rightarrow> 'a list \<Rightarrow> 'a list" where
  "js_sort cmp xs = foldr (js_insert cmp) xs []"

definition selectAgent :: "MultiAgentOrchestrator \<Rightarrow> string option \<Rightarrow> string option \<Rightarrow> MultiAgentIdentity option" where
  "selectAgent orc wantedRoleId wantedInstanceId =
     (let agents = getLocalAgents (router orc)
      in if agents = [] then None
         else if truthy wantedInstanceId
         then find (\<lambda>a. MultiAgentIdentity.agentInstanceId a = the wantedInstanceId) agents
         else
           (let candidates =
                  (if truthy wantedRoleId
                   then
                     (let assignedAgents = getAgentsWithRole (roleManager orc) (the wantedRoleId);
                          assignedIds = map RoleAssignment.agentInstanceId assignedAgents
                      in filter (\<lambda>a. MultiAgentIdentity.agentInstanceId a \<in> set assignedIds) agents)
                   else agents)
            in if candidates = [] then None
               else
                 (case js_sort compare_load (map (with_load orc) candidates) of
                    [] \<Rightarrow> None
                  | w # _ \<Rightarrow> Some (WithLoad.agent w))))"

subsection \<open>Task submission\<close>

record SubmitTaskOpts =
  task :: string
  requestedBy :: "MultiAgentIdentity option"
  targetRoleId :: "string option"
  targetAgentInstanceId :: "string option"
  priority :: "int option"
  deadline :: "int option"
  workflowStepId :: "string option"
  workflowPlanId :: "string option"
  timeoutMs :: "int option"
  tags :: "string list option"

text \<open>
  \<^verbatim>\<open>submitTask\<close>. The results of the \<^verbatim>\<open>randomUUID()\<close> calls are arguments: \<open>tid\<close> for the
  task, \<open>cid\<close> for the correlation id, \<open>mid\<close> for the message. The clock readings of the
  one call are taken to be the same value. The task returned is the object stored in the
  tracker, so it shows the assignment and the start. What the called handlers and
  listeners do is outside code and is not part of the result.
\<close>

definition submitTask :: "MultiAgentOrchestrator \<Rightarrow> int \<Rightarrow> string \<Rightarrow> string \<Rightarrow> string \<Rightarrow> SubmitTaskOpts \<Rightarrow> TrackedTask option \<times> orchestrator_effect list \<times> MultiAgentOrchestrator" where
  "submitTask orc now tid cid mid opts =
     (let (tracked, wt1) =
            createTask (workTracker orc) now
              \<lparr>CreateTaskOpts.taskId = tid,
               correlationId = (case SubmitTaskOpts.workflowPlanId opts of None \<Rightarrow> cid | Some p \<Rightarrow> p),
               task = SubmitTaskOpts.task opts,
               requestedBy = SubmitTaskOpts.requestedBy opts,
               workflowStepId = SubmitTaskOpts.workflowStepId opts,
               workflowPlanId = SubmitTaskOpts.workflowPlanId opts,
               priority = SubmitTaskOpts.priority opts,
               deadline = SubmitTaskOpts.deadline opts,
               maxRetries = None,
               tags = SubmitTaskOpts.tags opts\<rparr>
      in case selectAgent orc (SubmitTaskOpts.targetRoleId opts)
                (SubmitTaskOpts.targetAgentInstanceId opts) of
           None \<Rightarrow> (getTask wt1 tid, [Emit (TaskCreated tid)], orc\<lparr>workTracker := wt1\<rparr>)
         | Some target \<Rightarrow>
             (let wt2 = snd (assignTask wt1 now tid target);
                  wt3 = snd (startTask wt2 now tid);
                  pl = TaskAssign
                         \<lparr>TaskAssignmentPayload.task = SubmitTaskOpts.task opts,
                          task_context = None, deadline = None,
                          priority = SubmitTaskOpts.priority opts,
                          timeoutMs = SubmitTaskOpts.timeoutMs opts,
                          workflowStepId = SubmitTaskOpts.workflowStepId opts\<rparr>;
                  (e, effects, r1) =
                    send (router orc) now mid cid
                      (case SubmitTaskOpts.requestedBy opts of
                         None \<Rightarrow> getOrchestratorIdentity orc
                       | Some rq \<Rightarrow> rq)
                      (Some target) pl
                      \<lparr>SendOpts.correlationId = Some (TrackedTask.correlationId tracked),
                       direction = Some Request, ttlSeconds = None\<rparr>
              in (getTask wt3 tid,
                  [Emit (TaskCreated tid)] @ map Routed effects
                    @ [Emit (TaskAssigned tid (MultiAgentIdentity.agentInstanceId target))],
                  orc\<lparr>workTracker := wt3, router := r1\<rparr>)))"

text \<open>\<^verbatim>\<open>registerAgent\<close> without the discovery broadcast: the local registration and the role.\<close>

definition registerAgent_state :: "MultiAgentOrchestrator \<Rightarrow> int \<Rightarrow> MultiAgentIdentity \<Rightarrow> string option \<Rightarrow> MultiAgentOrchestrator" where
  "registerAgent_state orc now ag rid =
     (let orc1 = orc\<lparr>router := registerLocalAgent (router orc) ag\<rparr>
      in if truthy rid
         then orc1\<lparr>roleManager :=
                    snd (assignRole (roleManager orc1) now ag (the rid) ''orchestrator'')\<rparr>
         else orc1)"

text \<open>A local agent holds the role: some assignment of the role carries its instance id.\<close>

definition holds_role :: "MultiAgentOrchestrator \<Rightarrow> string \<Rightarrow> MultiAgentIdentity \<Rightarrow> bool" where
  "holds_role orc rid ag =
     list_ex (\<lambda>a. RoleAssignment.agentInstanceId a = MultiAgentIdentity.agentInstanceId ag)
       (getAgentsWithRole (roleManager orc) rid)"

definition role_candidates :: "MultiAgentOrchestrator \<Rightarrow> string \<Rightarrow> MultiAgentIdentity list" where
  "role_candidates orc rid = filter (holds_role orc rid) (getLocalAgents (router orc))"

text \<open>
  In the words of the claim: the load of an agent is the load of its latest heartbeat,
  0 when there is none; its role priority is the priority of the role in its assignment,
  50 when there is none.
\<close>

definition latest_load :: "MultiAgentOrchestrator \<Rightarrow> MultiAgentIdentity \<Rightarrow> real" where
  "latest_load orc ag =
     (case map_of (agentHeartbeats orc) (MultiAgentIdentity.agentInstanceId ag) of
        Some hb \<Rightarrow> (case HeartbeatPayload.load hb of Some l \<Rightarrow> l | None \<Rightarrow> 0)
      | None \<Rightarrow> 0)"

definition role_priority :: "MultiAgentOrchestrator \<Rightarrow> MultiAgentIdentity \<Rightarrow> int" where
  "role_priority orc ag =
     (case map_of (assignments (roleManager orc)) (MultiAgentIdentity.agentInstanceId ag) of
        Some a \<Rightarrow> (case AgentRole.priority (RoleAssignment.role a) of Some p \<Rightarrow> p | None \<Rightarrow> 50)
      | None \<Rightarrow> 50)"

text \<open>\<^verbatim>\<open>defineRole\<close> of the orchestrator hands the role to its role manager.\<close>

definition orchestrator_defineRole :: "MultiAgentOrchestrator \<Rightarrow> AgentRole \<Rightarrow> MultiAgentOrchestrator" where
  "orchestrator_defineRole orc r = orc\<lparr>roleManager := defineRole (roleManager orc) r\<rparr>"

subsection \<open>A concrete orchestrator\<close>

definition example_submit :: "string \<Rightarrow> SubmitTaskOpts" where
  "example_submit rid =
     \<lparr>SubmitTaskOpts.task = ''implement feature X'', requestedBy = None,
      targetRoleId = Some rid, targetAgentInstanceId = None, priority = Some 80,
      deadline = None, workflowStepId = None, workflowPlanId = None, timeoutMs = None,
      tags = None\<rparr>"

text \<open>
  Gateway \<open>gw-1\<close> with two coders \<open>a1\<close> and \<open>a2\<close> and a reviewer \<open>a3\<close>; \<open>a1\<close> has
  reported a load of one half, the others nothing.
\<close>

definition example_orchestrator :: MultiAgentOrchestrator where
  "example_orchestrator =
     on_heartbeat
       (registerAgent_state
          (registerAgent_state
             (registerAgent_state (new_MultiAgentOrchestrator ''gw-1'' ''secret'') 1
                (example_agent ''a1'') (Some ''coder''))
             2 (example_agent ''a2'') (Some ''coder''))
          3 (example_agent ''a3'') (Some ''reviewer''))
       4 (example_agent ''a1'') \<lparr>HeartbeatPayload.load = Some (1 / 2), activeTasks = None, uptimeMs = None\<rparr>"

definition example_coder_priority_90 :: AgentRole where
  "example_coder_priority_90 =
     \<lparr>AgentRole.roleId = ''coder'', name = ''Coder'', description = None,
      systemPromptFragment = None, allowedTools = None, deniedTools = None,
      maxConcurrent = None, priority = Some 90\<rparr>"

text \<open>
  Two coders without heartbeat: \<open>a1\<close> took the built-in role (priority 60); the role was
  then redefined with priority 90, and \<open>a2\<close> took that one.
\<close>

definition example_tie_orchestrator :: MultiAgentOrchestrator where
  "example_tie_orchestrator =
     registerAgent_state
       (orchestrator_defineRole
          (registerAgent_state (new_MultiAgentOrchestrator ''gw-1'' ''secret'') 1
             (example_agent ''a1'') (Some ''coder''))
          example_coder_priority_90)
       2 (example_agent ''a2'') (Some ''coder'')"

section \<open>Properties of the work tracker\<close>

text \<open>
  Claim C8. \<^verbatim>\<open>retryTask(taskId)\<close> returns true if and only if the task exists, its status is
  failed or timeout, and \<^verbatim>\<open>retryCount < maxRetries\<close>. On success the stored task is the old
  one with \<^verbatim>\<open>retryCount\<close> incremented, status pending, and \<^verbatim>\<open>assignedTo\<close>, \<^verbatim>\<open>assignedAt\<close>,
  \<^verbatim>\<open>startedAt\<close>, \<^verbatim>\<open>completedAt\<close>, \<^verbatim>\<open>progressPercent\<close>, \<^verbatim>\<open>statusLine\<close> and \<^verbatim>\<open>result\<close> cleared,
  every other field and every other part of the tracker being kept; on failure the tracker
  is unchanged.
\<close>

theorem retryTask_spec:
  "fst (retryTask s tid) =
     (\<exists>t. map_of (tasks s) tid = Some t
          \<and> (TrackedTask.status t = Failed \<or> TrackedTask.status t = Timeout)
          \<and> retryCount t < TrackedTask.maxRetries t)
   \<and> (fst (retryTask s tid) \<longrightarrow>
        (\<exists>t. map_of (tasks s) tid = Some t
           \<and> snd (retryTask s tid) =
               s\<lparr>tasks := AList.update tid
                    (t\<lparr>retryCount := retryCount t + 1,
                       TrackedTask.status := Pending,
                       assignedTo := None, TrackedTask.assignedAt := None, startedAt := None,
                       completedAt := None, progressPercent := None,
                       TrackedTask.statusLine := None, TrackedTask.result := None\<rparr>)
                    (tasks s)\<rparr>
           \<and> map_of (tasks (snd (retryTask s tid))) tid =
               Some (t\<lparr>retryCount := retryCount t + 1,
                       TrackedTask.status := Pending,
                       assignedTo := None, TrackedTask.assignedAt := None, startedAt := None,
                       completedAt := None, progressPercent := None,
                       TrackedTask.statusLine := None, TrackedTask.result := None\<rparr>)))
   \<and> (\<not> fst (retryTask s tid) \<longrightarrow> snd (retryTask s tid) = s)"
  by (auto simp: retryTask_def update_conv' split: option.splits)


lemmas tracker_eval =
  run_tracker_ops_def example_tracker_def example_failed_tracker_def
  example_cancelled_tracker_def
  example_opts_def example_result_def example_agent_def
  createTask_def new_WorkTracker_def assignTask_def startTask_def completeTask_def
  cancelTask_def retryTask_def getTask_def status_of_def truthy_def index_add_def Let_def

theorem retryTask_spec_witness:
  "fst (retryTask example_failed_tracker ''t1'')
   \<and> status_of (snd (retryTask example_failed_tracker ''t1'')) ''t1'' = Some Pending
   \<and> map_option retryCount (getTask (snd (retryTask example_failed_tracker ''t1'')) ''t1'') = Some 1
   \<and> \<not> fst (retryTask example_cancelled_tracker ''t1'')
   \<and> snd (retryTask example_cancelled_tracker ''t1'') = example_cancelled_tracker"
proof -
  have f: "\<exists>t. map_of (tasks example_failed_tracker) ''t1'' = Some t
             \<and> (TrackedTask.status t = Failed \<or> TrackedTask.status t = Timeout)
             \<and> retryCount t < TrackedTask.maxRetries t"
    by (simp add: tracker_eval)
  have c: "\<not> (\<exists>t. map_of (tasks example_cancelled_tracker) ''t1'' = Some t
             \<and> (TrackedTask.status t = Failed \<or> TrackedTask.status t = Timeout)
             \<and> retryCount t < TrackedTask.maxRetries t)"
    by (simp add: tracker_eval)
  from f retryTask_spec [of example_failed_tracker "''t1''"]
  have 1: "fst (retryTask example_failed_tracker ''t1'')" by blast
  with retryTask_spec [of example_failed_tracker "''t1''"] obtain t where
    t: "map_of (tasks example_failed_tracker) ''t1'' = Some t" and
    t': "map_of (tasks (snd (retryTask example_failed_tracker ''t1''))) ''t1'' =
           Some (t\<lparr>retryCount := retryCount t + 1,
                   TrackedTask.status := Pending,
                   assignedTo := None, TrackedTask.assignedAt := None, startedAt := None,
                   completedAt := None, progressPercent := None,
                   TrackedTask.statusLine := None, TrackedTask.result := None\<rparr>)"
    by blast
  have "retryCount t = 0" using t by (auto simp: tracker_eval)
  with t' have 2: "status_of (snd (retryTask example_failed_tracker ''t1'')) ''t1'' = Some Pending"
    and 3: "map_option retryCount (getTask (snd (retryTask example_failed_tracker ''t1'')) ''t1'') = Some 1"
    by (simp_all add: status_of_def getTask_def)
  from c retryTask_spec [of example_cancelled_tracker "''t1''"]
  have 4: "\<not> fst (retryTask example_cancelled_tracker ''t1'')"
    and 5: "snd (retryTask example_cancelled_tracker ''t1'') = example_cancelled_tracker"
    by blast+
  from 1 2 3 4 5 show ?thesis by blast
qed

subsection \<open>Status transitions\<close>

lemma step_keeps_task:
  "map_of (tasks s) tid = Some t \<Longrightarrow> \<exists>t'. map_of (tasks (apply_tracker_op s x)) tid = Some t'"
  by (cases x; cases "snd x")
     (auto simp: assignTask_def startTask_def completeTask_def cancelTask_def retryTask_def
        update_conv' Let_def split: option.splits)

lemma step_diagram:
  assumes "completes_in_progress s (snd x)" "map_of (tasks s) tid = Some t"
    "map_of (tasks (apply_tracker_op s x)) tid = Some t'"
  shows "(TrackedTask.status t' = TrackedTask.status t
            \<or> code_diagram (TrackedTask.status t) (TrackedTask.status t'))
         \<and> (terminal (TrackedTask.status t) \<longrightarrow> t' = t)"
  using assms
  by (cases x; cases "snd x"; cases "TrackedTask.status t")
     (auto simp: assignTask_def startTask_def completeTask_def cancelTask_def retryTask_def
        update_conv' Let_def code_diagram_def terminal_def split: option.splits if_splits)

lemma status_trace_start:
  "\<exists>rest. status_trace s ops tid = status_of s tid # rest"
  by (cases ops) auto

text \<open>
  Claim C1, as amended. Take any sequence of \<^verbatim>\<open>assignTask\<close>, \<^verbatim>\<open>startTask\<close>,
  \<^verbatim>\<open>cancelTask\<close>, \<^verbatim>\<open>retryTask\<close> and \<^verbatim>\<open>completeTask\<close> calls in which each \<^verbatim>\<open>completeTask\<close>
  is applied to a task that is in progress. Every single call leaves a tracked task
  tracked and either keeps its status or moves it along one edge the guards of the code
  allow: an edge of the diagram of section 3, or failed to assigned, failed to cancelled,
  timeout to cancelled. Once a task is completed or cancelled, no call of such a sequence
  changes it at all.
\<close>

theorem tracker_transitions_follow_code_diagram:
  "admissible_run s ops \<Longrightarrow> getTask s tid = Some t \<Longrightarrow>
   successively legal_step (status_trace s ops tid)
   \<and> (terminal (TrackedTask.status t) \<longrightarrow> getTask (run_tracker_ops s ops) tid = Some t)"
proof (induction ops arbitrary: s t)
  case Nil
  then show ?case by (simp add: run_tracker_ops_def)
next
  case (Cons x xs)
  from Cons.prems(2) have t: "map_of (tasks s) tid = Some t" by (simp add: getTask_def)
  from step_keeps_task [OF t] obtain t1
    where t1: "map_of (tasks (apply_tracker_op s x)) tid = Some t1" by blast
  from Cons.prems(1) have adm: "completes_in_progress s (snd x)"
    and rest: "admissible_run (apply_tracker_op s x) xs" by simp_all
  from step_diagram [OF adm t t1]
  have edge: "TrackedTask.status t1 = TrackedTask.status t
                \<or> code_diagram (TrackedTask.status t) (TrackedTask.status t1)"
    and tkeep: "terminal (TrackedTask.status t) \<longrightarrow> t1 = t" by simp_all
  from t1 have g1: "getTask (apply_tracker_op s x) tid = Some t1" by (simp add: getTask_def)
  from Cons.IH [OF rest g1]
  have tr: "successively legal_step (status_trace (apply_tracker_op s x) xs tid)"
    and keep: "terminal (TrackedTask.status t1) \<longrightarrow>
                 getTask (run_tracker_ops (apply_tracker_op s x) xs) tid = Some t1"
    by simp_all
  obtain rest' where hd: "status_trace (apply_tracker_op s x) xs tid
                            = status_of (apply_tracker_op s x) tid # rest'"
    using status_trace_start by blast
  have step: "legal_step (status_of s tid) (status_of (apply_tracker_op s x) tid)"
    using edge Cons.prems(2) g1 by (auto simp: legal_step_def status_of_def)
  have "successively legal_step (status_trace s (x # xs) tid)"
    using tr step hd by simp
  moreover have "terminal (TrackedTask.status t) \<longrightarrow>
                   getTask (run_tracker_ops s (x # xs)) tid = Some t"
    using tkeep keep by (auto simp: run_tracker_ops_def)
  ultimately show ?case by blast
qed

theorem tracker_transitions_witness:
  "admissible_run example_tracker example_life
   \<and> status_trace example_tracker example_life ''t1'' =
       [Some Pending, Some Assigned, Some InProgress, Some Failed, Some Assigned,
        Some InProgress, Some Timeout, Some Pending, Some Assigned, Some InProgress,
        Some Failed, Some Cancelled, Some Cancelled]
   \<and> successively legal_step (status_trace example_tracker example_life ''t1'')
   \<and> admissible_run example_cancelled_tracker example_late_calls
   \<and> status_of example_cancelled_tracker ''t1'' = Some Cancelled
   \<and> getTask (run_tracker_ops example_cancelled_tracker example_late_calls) ''t1''
       = getTask example_cancelled_tracker ''t1''"
proof -
  have a: "admissible_run example_tracker example_life" by code_simp
  have tr: "status_trace example_tracker example_life ''t1'' =
       [Some Pending, Some Assigned, Some InProgress, Some Failed, Some Assigned,
        Some InProgress, Some Timeout, Some Pending, Some Assigned, Some InProgress,
        Some Failed, Some Cancelled, Some Cancelled]" by code_simp
  obtain t0 where t0: "getTask example_tracker ''t1'' = Some t0"
    by (simp add: tracker_eval)
  from tracker_transitions_follow_code_diagram [OF a t0]
  have s: "successively legal_step (status_trace example_tracker example_life ''t1'')"
    by blast
  have b: "admissible_run example_cancelled_tracker example_late_calls"
    by (simp add: example_late_calls_def)
  obtain t where t: "getTask example_cancelled_tracker ''t1'' = Some t"
    and st: "TrackedTask.status t = Cancelled"
    by (simp add: tracker_eval)
  from tracker_transitions_follow_code_diagram [OF b t] st
  have k: "getTask (run_tracker_ops example_cancelled_tracker example_late_calls) ''t1'' = Some t"
    by (simp add: terminal_def)
  from t st have c: "status_of example_cancelled_tracker ''t1'' = Some Cancelled"
    by (simp add: status_of_def)
  from a tr s b c k t show ?thesis by simp
qed

text \<open>
  Claim C1, as stated, fails twice. A cancelled task is completed by a late
  \<^verbatim>\<open>completeTask\<close>, which has no guard on the current status; and \<^verbatim>\<open>assignTask\<close> moves a
  failed task to assigned, an edge the diagram of section 3 does not have.
\<close>

theorem tracker_terminal_counterexample:
  "status_of (run_tracker_ops example_tracker [(1, CancelTask ''t1'')]) ''t1'' = Some Cancelled
   \<and> status_of (run_tracker_ops example_tracker
         [(1, CancelTask ''t1''), (2, CompleteTask ''t1'' (example_result Success))]) ''t1''
       = Some Completed
   \<and> status_of example_failed_tracker ''t1'' = Some Failed
   \<and> status_of (run_tracker_ops example_failed_tracker
         [(4, AssignTask ''t1'' (example_agent ''a2''))]) ''t1'' = Some Assigned
   \<and> \<not> spec_diagram Failed Assigned"
  by (simp add: tracker_eval)

subsection \<open>Cleanup\<close>

text \<open>
  Claim C2 at a concrete tracker. A cleanup at time 100000 with \<^verbatim>\<open>maxAgeMs = 1000\<close> meets a
  failed task and a timed-out task, both finished at time 30 and both still retryable.
  It removes the failed one and keeps the timed-out one, and returns 1.
\<close>

theorem cleanup_failed_but_not_timeout:
  "status_of example_two_tasks ''t1'' = Some Failed
   \<and> status_of example_two_tasks ''t2'' = Some Timeout
   \<and> fst (retryTask example_two_tasks ''t1'')
   \<and> fst (cleanup example_two_tasks 100000 1000) = 1
   \<and> getTask (snd (cleanup example_two_tasks 100000 1000)) ''t1'' = None
   \<and> status_of (snd (cleanup example_two_tasks 100000 1000)) ''t2'' = Some Timeout"
  by (simp add: tracker_eval example_two_tasks_def cleanup_def cleanup_due_def
        cleanup_remove_def index_remove_def set_add_def set_delete_def)
section \<open>Properties of the security manager\<close>

lemmas sec_eval = example_security_def example_policy_def setPolicy_def new_AgentSecurityManager_def
  checkRateLimit_def getPolicy_def logAudit_def windowMs_def maxAuditEntries_def Let_def
  string_of_int_def

lemma checkRateLimit_policies [simp]:
  "policies (snd (checkRateLimit s now aid)) = policies s"
  by (simp add: checkRateLimit_def logAudit_def Let_def)

lemma getPolicy_checkRateLimit [simp]:
  "getPolicy (snd (checkRateLimit s now aid)) a = getPolicy s a"
  by (simp add: getPolicy_def)

text \<open>A call that finds the window open counts in it; the call is allowed while the count fits.\<close>

lemma checkRateLimit_same_window:
  assumes "map_of (rateLimiter s) aid = Some e" "now - windowStart e \<le> windowMs"
  shows "fst (checkRateLimit s now aid) = (count e + 1 \<le> maxMessagesPerMinute (getPolicy s aid))"
    and "map_of (rateLimiter (snd (checkRateLimit s now aid))) aid
           = Some (e\<lparr>count := count e + 1\<rparr>)"
  using assms by (simp_all add: checkRateLimit_def logAudit_def Let_def update_conv')

lemma checkRateLimit_new_window:
  assumes "map_of (rateLimiter s) aid = None
           \<or> (\<exists>e. map_of (rateLimiter s) aid = Some e \<and> now - windowStart e > windowMs)"
  shows "fst (checkRateLimit s now aid) = (1 \<le> maxMessagesPerMinute (getPolicy s aid))"
    and "map_of (rateLimiter (snd (checkRateLimit s now aid))) aid
           = Some \<lparr>count = 1, windowStart = now\<rparr>"
  using assms by (auto simp add: checkRateLimit_def logAudit_def Let_def update_conv')

lemma window_run_bound:
  "map_of (rateLimiter s) aid = Some e \<Longrightarrow> \<forall>t \<in> set ts. t - windowStart e \<le> windowMs \<Longrightarrow>
   int (allowed_calls (fst (checkRateLimit_run s aid ts)))
     \<le> max 0 (maxMessagesPerMinute (getPolicy s aid) - count e)"
proof (induction ts arbitrary: s e)
  case Nil
  then show ?case by simp
next
  case (Cons t ts)
  let ?s1 = "snd (checkRateLimit s t aid)"
  let ?e1 = "e\<lparr>count := count e + 1\<rparr>"
  from Cons.prems have here: "t - windowStart e \<le> windowMs" by simp
  note step = checkRateLimit_same_window [OF Cons.prems(1) here]
  have "\<forall>u \<in> set ts. u - windowStart ?e1 \<le> windowMs" using Cons.prems(2) by simp
  from Cons.IH [OF step(2) this]
  have ih: "int (allowed_calls (fst (checkRateLimit_run ?s1 aid ts)))
              \<le> max 0 (maxMessagesPerMinute (getPolicy s aid) - (count e + 1))" by simp
  show ?case
  proof (cases "fst (checkRateLimit s t aid)")
    case True
    with step(1) have "count e + 1 \<le> maxMessagesPerMinute (getPolicy s aid)" by simp
    with ih True show ?thesis by (simp add: split_beta Let_def)
  next
    case False
    with ih show ?thesis by (simp add: split_beta Let_def)
  qed
qed

text \<open>
  Claim C3, as amended. The limiter keeps one fixed window per agent. When a
  \<^verbatim>\<open>checkRateLimit(a)\<close> call at time \<open>t0\<close> starts a window (no entry yet, or the old window is
  more than 60 s old) and the following calls fall into that window (at most 60 s after
  \<open>t0\<close>), at most \<^verbatim>\<open>maxMessagesPerMinute\<close> of all these calls return true. Every denied call
  appends exactly one audit entry, for that agent, with action \<^verbatim>\<open>rate-limit.exceeded\<close> and
  \<^verbatim>\<open>allowed = false\<close>; an allowed call appends none.
\<close>

theorem rate_window_bound:
  assumes start: "map_of (rateLimiter s) aid = None
           \<or> (\<exists>e. map_of (rateLimiter s) aid = Some e \<and> t0 - windowStart e > windowMs)"
    and later: "\<forall>t \<in> set ts. t - t0 \<le> windowMs"
  shows "int (allowed_calls (fst (checkRateLimit_run s aid (t0 # ts))))
           \<le> max 0 (maxMessagesPerMinute (getPolicy s aid))
         \<and> (\<forall>s' now.
              if fst (checkRateLimit s' now aid)
              then auditLog (snd (checkRateLimit s' now aid)) = auditLog s'
              else (\<exists>entry. auditLog (snd (checkRateLimit s' now aid)) = auditLog s' @ [entry]
                     \<and> SecurityAuditEntry.action entry = ''rate-limit.exceeded''
                     \<and> SecurityAuditEntry.agentId entry = aid
                     \<and> \<not> allowed entry))"
proof
  let ?s1 = "snd (checkRateLimit s t0 aid)"
  note first = checkRateLimit_new_window [OF start]
  have "\<forall>t \<in> set ts. t - windowStart \<lparr>count = 1, windowStart = t0\<rparr> \<le> windowMs"
    using later by simp
  from window_run_bound [OF first(2) this]
  have rest: "int (allowed_calls (fst (checkRateLimit_run ?s1 aid ts)))
                \<le> max 0 (maxMessagesPerMinute (getPolicy s aid) - 1)" by simp
  show "int (allowed_calls (fst (checkRateLimit_run s aid (t0 # ts))))
           \<le> max 0 (maxMessagesPerMinute (getPolicy s aid))"
  proof (cases "fst (checkRateLimit s t0 aid)")
    case True
    with first(1) have "1 \<le> maxMessagesPerMinute (getPolicy s aid)" by simp
    with rest True show ?thesis by (simp add: split_beta Let_def)
  next
    case False
    with rest show ?thesis by (simp add: split_beta Let_def)
  qed
next
  show "\<forall>s' now.
              if fst (checkRateLimit s' now aid)
              then auditLog (snd (checkRateLimit s' now aid)) = auditLog s'
              else (\<exists>entry. auditLog (snd (checkRateLimit s' now aid)) = auditLog s' @ [entry]
                     \<and> SecurityAuditEntry.action entry = ''rate-limit.exceeded''
                     \<and> SecurityAuditEntry.agentId entry = aid
                     \<and> \<not> allowed entry)"
    by (simp add: checkRateLimit_def logAudit_def Let_def)
qed

text \<open>
  Claim C3, as stated, fails: with a limit of 2, calls at 0, 60000, 60001 and 60002 ms are
  all allowed (the third one starts a new window), so the 60-second interval that begins at
  60000 holds three allowed calls.
\<close>

theorem rate_sliding_window_counterexample:
  "maxMessagesPerMinute (getPolicy (example_security 2) ''fast-agent'') = 2
   \<and> allowed_in_window
       (fst (checkRateLimit_run (example_security 2) ''fast-agent'' [0, 60000, 60001, 60002]))
       [0, 60000, 60001, 60002] 60000 = 3"
  by (simp add: sec_eval allowed_in_window_def)

theorem rate_window_bound_witness:
  "map_of (rateLimiter (example_security 3)) ''fast-agent'' = None
   \<and> (1::int) - 0 \<le> windowMs \<and> (2::int) - 0 \<le> windowMs \<and> (60000::int) - 0 \<le> windowMs
   \<and> fst (checkRateLimit_run (example_security 3) ''fast-agent'' [0, 1, 2, 60000])
       = [True, True, True, False]
   \<and> int (allowed_calls (fst (checkRateLimit_run (example_security 3) ''fast-agent'' [0, 1, 2, 60000])))
       \<le> max 0 (maxMessagesPerMinute (getPolicy (example_security 3) ''fast-agent''))
   \<and> map SecurityAuditEntry.action
       (auditLog (snd (checkRateLimit_run (example_security 3) ''fast-agent'' [0, 1, 2, 60000])))
       = [''rate-limit.exceeded'']"
proof -
  have a: "map_of (rateLimiter (example_security 3)) ''fast-agent'' = None
           \<or> (\<exists>e. map_of (rateLimiter (example_security 3)) ''fast-agent'' = Some e
                  \<and> 0 - windowStart e > windowMs)"
    by (simp add: sec_eval)
  have b: "\<forall>t \<in> set [1, 2, 60000]. t - 0 \<le> windowMs" by (simp add: windowMs_def)
  from rate_window_bound [OF a b]
  have "int (allowed_calls (fst (checkRateLimit_run (example_security 3) ''fast-agent'' [0, 1, 2, 60000])))
       \<le> max 0 (maxMessagesPerMinute (getPolicy (example_security 3) ''fast-agent''))"
    by blast
  moreover have "map_of (rateLimiter (example_security 3)) ''fast-agent'' = None"
    by (simp add: sec_eval)
  moreover have "fst (checkRateLimit_run (example_security 3) ''fast-agent'' [0, 1, 2, 60000])
       = [True, True, True, False]" by (simp add: sec_eval)
  moreover have "map SecurityAuditEntry.action
       (auditLog (snd (checkRateLimit_run (example_security 3) ''fast-agent'' [0, 1, 2, 60000])))
       = [''rate-limit.exceeded'']" by (simp add: sec_eval)
  ultimately show ?thesis using b by simp
qed


subsection \<open>Authorization of broadcasts\<close>

text \<open>
  Claim C10, as amended. A message without recipient always counts as cross-gateway. When
  the sender's policy has \<^verbatim>\<open>allowCrossGateway = false\<close> it is denied: with reason
  \<^verbatim>\<open>cross-gateway communication not allowed\<close> when the rate-limit check, which runs first,
  lets the message pass, and with reason \<^verbatim>\<open>rate limit exceeded\<close> otherwise.
\<close>

theorem broadcast_denied_as_cross_gateway:
  "env_to (envelope msg) = None \<Longrightarrow>
   \<not> allowCrossGateway (getPolicy s (MultiAgentIdentity.agentConfigId (env_from (envelope msg)))) \<Longrightarrow>
   fst (authorizeMessage L s now msg) =
     (if fst (checkRateLimit s now (MultiAgentIdentity.agentConfigId (env_from (envelope msg))))
      then (False, Some ''cross-gateway communication not allowed'')
      else (False, Some ''rate limit exceeded''))"
  by (simp add: authorizeMessage_def Let_def split_beta)

lemmas msg_eval = example_broadcast_def example_envelope_def example_heartbeat_def
  example_lib_def

theorem broadcast_denied_witness:
  "env_to (envelope example_broadcast) = None
   \<and> \<not> allowCrossGateway (getPolicy (example_security 3) ''fast-agent'')
   \<and> fst (authorizeMessage example_lib (example_security 3) 0 example_broadcast)
       = (False, Some ''cross-gateway communication not allowed'')"
proof -
  have a: "env_to (envelope example_broadcast) = None" by (simp add: msg_eval)
  have id: "MultiAgentIdentity.agentConfigId (env_from (envelope example_broadcast)) = ''fast-agent''"
    by (simp add: msg_eval)
  have b: "\<not> allowCrossGateway (getPolicy (example_security 3) ''fast-agent'')"
    by (simp add: sec_eval)
  have c: "fst (checkRateLimit (example_security 3) 0 ''fast-agent'')"
    by (simp add: sec_eval)
  from broadcast_denied_as_cross_gateway [of example_broadcast "example_security 3" example_lib 0]
    a b c id
  show ?thesis by simp
qed

text \<open>
  Claim C10, as stated, fails when the sender is over its rate limit: the broadcast is
  denied, but with the reason of the earlier check.
\<close>

theorem broadcast_rate_limited_counterexample:
  "env_to (envelope example_broadcast) = None
   \<and> \<not> allowCrossGateway (getPolicy (example_security 0) ''fast-agent'')
   \<and> fst (authorizeMessage example_lib (example_security 0) 0 example_broadcast)
       = (False, Some ''rate limit exceeded'')"
  by (simp add: msg_eval sec_eval authorizeMessage_def)

subsection \<open>Message signatures\<close>



section \<open>Properties of the role manager\<close>

lemma filter_update_count:
  "length (filter Q (AList.update k v al))
     + (case map_of al k of None \<Rightarrow> 0 | Some old \<Rightarrow> if Q (k, old) then 1 else 0)
     = length (filter Q al) + (if Q (k, v) then 1 else 0)"
  by (induction al) auto

lemma filter_delete_count:
  "length (filter Q (AList.delete k al)) \<le> length (filter Q al)"
  by (induction al) auto

lemma set_update_subset: "set (AList.update k v al) \<subseteq> insert (k, v) (set al)"
  by (induction al) auto

lemma set_delete_subset: "set (AList.delete k al) \<subseteq> set al"
  by (induction al) auto

lemma count_as_filter:
  "countAgentsWithRole rm rid =
     length (filter (\<lambda>x. AgentRole.roleId (RoleAssignment.role (snd x)) = rid) (assignments rm))"
  by (simp add: countAgentsWithRole_def listAssignments_def filter_map o_def)

lemma quota_holds_iff:
  "quota_holds rm = (\<forall>(k, r) \<in> set (roles rm). within_quota rm r)"
  by (auto simp: quota_holds_def listRoles_def list_all_iff)

lemma roles_keyed_iff:
  "roles_keyed rm =
     (distinct (map fst (roles rm)) \<and> (\<forall>(k, r) \<in> set (roles rm). AgentRole.roleId r = k))"
  by (auto simp: roles_keyed_def list_all_iff)

lemma within_quota_same_assignments:
  "assignments rm' = assignments rm \<Longrightarrow> within_quota rm' r = within_quota rm r"
  by (simp add: within_quota_def count_as_filter cong: option.case_cong)

lemma within_quota_fewer:
  "countAgentsWithRole rm' (AgentRole.roleId r) \<le> countAgentsWithRole rm (AgentRole.roleId r)
   \<Longrightarrow> within_quota rm r \<Longrightarrow> within_quota rm' r"
  by (auto simp: within_quota_def split: option.splits)

lemma count_after_assign:
  "countAgentsWithRole (rm\<lparr>assignments := AList.update iid a (assignments rm)\<rparr>) rid'
     + (if alreadyHasRole rm iid rid' then 1 else 0)
   = countAgentsWithRole rm rid'
     + (if AgentRole.roleId (RoleAssignment.role a) = rid' then 1 else 0)"
  using filter_update_count
          [of "\<lambda>x. AgentRole.roleId (RoleAssignment.role (snd x)) = rid'" iid a "assignments rm"]
  by (auto simp: count_as_filter alreadyHasRole_def split: option.splits if_splits)

lemma set_roles_keyed:
  "distinct (map fst m) \<Longrightarrow> \<forall>(k, r) \<in> set m. AgentRole.roleId r = k \<Longrightarrow>
   distinct (map fst (set_roles rs m)) \<and> (\<forall>(k, r) \<in> set (set_roles rs m). AgentRole.roleId r = k)"
proof (induction rs arbitrary: m)
  case Nil
  then show ?case by (simp add: set_roles_def)
next
  case (Cons r rs)
  let ?m = "AList.update (AgentRole.roleId r) r m"
  have d: "distinct (map fst ?m)" using Cons.prems(1) by (simp add: distinct_update)
  have k: "\<forall>(k, r') \<in> set ?m. AgentRole.roleId r' = k"
    using Cons.prems(2) set_update_subset [of "AgentRole.roleId r" r m] by auto
  from Cons.IH [OF d k] show ?case by (simp add: set_roles_def)
qed

lemma step_quota:
  assumes keyed: "roles_keyed rm" and quota: "quota_holds rm" and ok: "respects_quota rm (snd x)"
  shows "quota_holds (apply_role_op rm x) \<and> roles_keyed (apply_role_op rm x)"
proof (cases x)
  case (Pair now op)
  from keyed have dist: "distinct (map fst (roles rm))"
    and key: "\<And>k r. (k, r) \<in> set (roles rm) \<Longrightarrow> AgentRole.roleId r = k"
    by (auto simp: roles_keyed_iff)
  from quota have q: "\<And>k r. (k, r) \<in> set (roles rm) \<Longrightarrow> within_quota rm r"
    by (auto simp: quota_holds_iff)
  show ?thesis
  proof (cases op)
    case (DefineRole r)
    let ?rm = "defineRole rm r"
    have sub: "set (roles ?rm) \<subseteq> insert (AgentRole.roleId r, r) (set (roles rm))"
      by (simp add: defineRole_def set_update_subset)
    have same: "assignments ?rm = assignments rm" by (simp add: defineRole_def)
    from ok Pair DefineRole have new: "within_quota rm r" by simp
    have "\<forall>(k, r') \<in> set (roles ?rm). within_quota ?rm r'"
      using sub q new within_quota_same_assignments [OF same] by auto
    moreover have "distinct (map fst (roles ?rm))"
      using dist by (simp add: defineRole_def distinct_update)
    moreover have "\<forall>(k, r') \<in> set (roles ?rm). AgentRole.roleId r' = k"
      using sub key by auto
    ultimately show ?thesis using Pair DefineRole
      by (simp add: quota_holds_iff roles_keyed_iff)
  next
    case (RemoveRole rid)
    let ?rm = "snd (removeRole rm rid)"
    have sub: "set (roles ?rm) \<subseteq> set (roles rm)"
      by (simp add: removeRole_def set_delete_subset)
    have same: "assignments ?rm = assignments rm" by (simp add: removeRole_def)
    have "\<forall>(k, r') \<in> set (roles ?rm). within_quota ?rm r'"
      using sub q within_quota_same_assignments [OF same] by auto
    moreover have "distinct (map fst (roles ?rm))"
      using dist by (simp add: removeRole_def distinct_delete)
    moreover have "\<forall>(k, r') \<in> set (roles ?rm). AgentRole.roleId r' = k"
      using sub key by auto
    ultimately show ?thesis using Pair RemoveRole
      by (simp add: quota_holds_iff roles_keyed_iff)
  next
    case (UnassignRole iid)
    let ?rm = "snd (unassignRole rm iid)"
    have r: "roles ?rm = roles rm" by (simp add: unassignRole_def)
    have le: "\<And>rid. countAgentsWithRole ?rm rid \<le> countAgentsWithRole rm rid"
      by (simp add: count_as_filter unassignRole_def filter_delete_count)
    have "within_quota ?rm r'" if "(k, r') \<in> set (roles rm)" for k r'
      using within_quota_fewer [OF le q [OF that]] .
    then have "\<forall>(k, r') \<in> set (roles ?rm). within_quota ?rm r'"
      using r by auto
    then show ?thesis using Pair UnassignRole keyed r
      by (simp add: quota_holds_iff roles_keyed_iff)
  next
    case (ImportState rs as)
    have "roles_keyed (importState rm rs as)"
      using set_roles_keyed [of "[]" rs] by (simp add: roles_keyed_iff importState_def)
    with ok Pair ImportState show ?thesis by simp
  next
    case (AssignRole ag rid assigner)
    let ?iid = "MultiAgentIdentity.agentInstanceId ag"
    show ?thesis
    proof (cases "fst (assignRole rm now ag rid assigner)")
      case None
      then have "snd (assignRole rm now ag rid assigner) = rm"
        by (auto simp: assignRole_def Let_def split: option.splits if_splits)
      with keyed quota Pair AssignRole show ?thesis by simp
    next
      case (Some a)
      then obtain r where look: "map_of (roles rm) rid = Some r"
        and pass: "\<And>k. maxConcurrent r = Some k \<Longrightarrow>
                     alreadyHasRole rm ?iid rid \<or> int (countAgentsWithRole rm rid) < k"
        and ra: "RoleAssignment.role a = r"
        and st: "snd (assignRole rm now ag rid assigner)
                   = rm\<lparr>assignments := AList.update ?iid a (assignments rm)\<rparr>"
        by (auto simp: assignRole_def Let_def split: option.splits if_splits)
      let ?rm = "rm\<lparr>assignments := AList.update ?iid a (assignments rm)\<rparr>"
      from look have mem: "(rid, r) \<in> set (roles rm)" by (rule map_of_SomeD)
      with key have rid: "AgentRole.roleId r = rid" by blast
      have "within_quota ?rm r'" if in_roles: "(k, r') \<in> set (roles rm)" for k r'
      proof (cases "maxConcurrent r'")
        case None
        then show ?thesis by (simp add: within_quota_def)
      next
        case (Some lim)
        from q [OF in_roles] Some
        have before: "int (countAgentsWithRole rm (AgentRole.roleId r')) \<le> lim"
          by (simp add: within_quota_def)
        note cnt = count_after_assign [where rm = rm and iid = ?iid and a = a
                                          and rid' = "AgentRole.roleId r'"]
        show ?thesis
        proof (cases "AgentRole.roleId r' = rid")
          case True
          with key [OF in_roles] have "k = rid" by simp
          with in_roles dist look have "r' = r" by (simp add: map_of_eq_Some_iff)
          with Some have "maxConcurrent r = Some lim" by simp
          from pass [OF this] cnt before True ra rid Some show ?thesis
            by (auto simp: within_quota_def split: if_splits)
        next
          case False
          with cnt before ra rid Some show ?thesis
            by (auto simp: within_quota_def split: if_splits)
        qed
      qed
      then have "quota_holds ?rm" by (auto simp: quota_holds_iff)
      moreover have "roles_keyed ?rm" using keyed by (simp add: roles_keyed_iff)
      ultimately show ?thesis using Pair AssignRole st by simp
    qed
  qed
qed

lemma run_quota:
  "roles_keyed rm \<Longrightarrow> quota_holds rm \<Longrightarrow> quota_respecting_run rm ops \<Longrightarrow>
   quota_holds (run_role_ops rm ops)"
proof (induction ops arbitrary: rm)
  case Nil
  then show ?case by (simp add: run_role_ops_def)
next
  case (Cons x xs)
  from Cons.prems(3) have ok: "respects_quota rm (snd x)"
    and rest: "quota_respecting_run (apply_role_op rm x) xs" by simp_all
  from step_quota [OF Cons.prems(1,2) ok] Cons.IH rest
  show ?case by (simp add: run_role_ops_def)
qed

lemmas role_eval = new_RoleManager_def BUILT_IN_ROLES_def set_roles_def set_assignments_def
  run_role_ops_def assignRole_def unassignRole_def defineRole_def removeRole_def importState_def
  countAgentsWithRole_def listAssignments_def listRoles_def alreadyHasRole_def
  quota_holds_def within_quota_def roles_keyed_def example_agent_def getRole_def getAssignment_def
  example_coder_quota_1_def example_monitor_def example_assignment_def read_only_denied_def Let_def

lemma new_RoleManager_ok: "roles_keyed new_RoleManager \<and> quota_holds new_RoleManager"
  by (simp add: role_eval)

text \<open>
  Claim C4, as amended. In every state reached from a freshly constructed role manager by
  \<^verbatim>\<open>assignRole\<close>, \<^verbatim>\<open>unassignRole\<close> and \<^verbatim>\<open>removeRole\<close> calls, together with \<^verbatim>\<open>defineRole\<close>
  calls that store a role within its quota and \<^verbatim>\<open>importState\<close> calls that install a state
  within quota, every defined role with \<^verbatim>\<open>maxConcurrent = k\<close> has at most \<open>k\<close> assignments
  of its \<^verbatim>\<open>roleId\<close>. \<^verbatim>\<open>assignRole\<close> returns null exactly when the role is missing or has a
  quota that is reached while the agent does not already hold the role, and then changes
  nothing; on success the new assignment carries the defined role and replaces the
  agent instance's entry, every other entry being kept.
\<close>

theorem role_quota_preserved:
  "(quota_respecting_run new_RoleManager ops \<longrightarrow> quota_holds (run_role_ops new_RoleManager ops))
   \<and> ((fst (assignRole rm now ag rid assigner) = None) =
        (getRole rm rid = None
         \<or> (\<exists>r k. getRole rm rid = Some r \<and> maxConcurrent r = Some k
               \<and> \<not> alreadyHasRole rm (MultiAgentIdentity.agentInstanceId ag) rid
               \<and> k \<le> int (countAgentsWithRole rm rid))))
   \<and> (\<forall>a. fst (assignRole rm now ag rid assigner) = Some a \<longrightarrow>
          getRole rm rid = Some (RoleAssignment.role a)
          \<and> RoleAssignment.agentInstanceId a = MultiAgentIdentity.agentInstanceId ag
          \<and> getAssignment (snd (assignRole rm now ag rid assigner))
               (MultiAgentIdentity.agentInstanceId ag) = Some a
          \<and> (\<forall>j. j \<noteq> MultiAgentIdentity.agentInstanceId ag \<longrightarrow>
                getAssignment (snd (assignRole rm now ag rid assigner)) j = getAssignment rm j))
   \<and> (fst (assignRole rm now ag rid assigner) = None \<longrightarrow>
          snd (assignRole rm now ag rid assigner) = rm)"
proof (intro conjI)
  show "quota_respecting_run new_RoleManager ops \<longrightarrow> quota_holds (run_role_ops new_RoleManager ops)"
    using run_quota new_RoleManager_ok by blast
qed (auto simp: assignRole_def getRole_def getAssignment_def Let_def update_conv'
       split: option.splits if_splits)

theorem role_quota_witness:
  "quota_respecting_run new_RoleManager example_role_ops
   \<and> quota_holds (run_role_ops new_RoleManager example_role_ops)
   \<and> countAgentsWithRole (run_role_ops new_RoleManager example_role_ops) ''monitor'' = 1
   \<and> getRole (run_role_ops new_RoleManager (take 1 example_role_ops)) ''monitor''
       = Some example_monitor
   \<and> countAgentsWithRole (run_role_ops new_RoleManager (take 1 example_role_ops)) ''monitor'' = 1
   \<and> fst (assignRole (run_role_ops new_RoleManager (take 1 example_role_ops)) 2
            (example_agent ''a2'') ''monitor'' ''admin'') = None"
proof -
  let ?rm1 = "run_role_ops new_RoleManager (take 1 example_role_ops)"
  note inst = role_quota_preserved
               [of example_role_ops ?rm1 2 "example_agent ''a2''" "''monitor''" "''admin''"]
  have a: "quota_respecting_run new_RoleManager example_role_ops"
    by (simp add: example_role_ops_def)
  with inst have b: "quota_holds (run_role_ops new_RoleManager example_role_ops)" by blast
  have c: "countAgentsWithRole (run_role_ops new_RoleManager example_role_ops) ''monitor'' = 1"
    by (simp add: example_role_ops_def role_eval)
  have d: "getRole ?rm1 ''monitor'' = Some example_monitor"
    by (simp add: example_role_ops_def role_eval)
  have e: "countAgentsWithRole ?rm1 ''monitor'' = 1"
    by (simp add: example_role_ops_def role_eval)
  have f: "\<not> alreadyHasRole ?rm1 (MultiAgentIdentity.agentInstanceId (example_agent ''a2'')) ''monitor''"
    by (simp add: example_role_ops_def role_eval)
  have g: "maxConcurrent example_monitor = Some 1" by (simp add: example_monitor_def)
  from inst d e f g
  have "fst (assignRole ?rm1 2 (example_agent ''a2'') ''monitor'' ''admin'') = None"
    by auto
  with a b c d e show ?thesis by blast
qed

text \<open>
  Claim C4, as stated, fails: \<^verbatim>\<open>defineRole\<close> and \<^verbatim>\<open>importState\<close> store what they are given
  without looking at the assignments. After two agents took the unlimited role \<open>coder\<close>, a
  redefinition of \<open>coder\<close> with \<^verbatim>\<open>maxConcurrent = 1\<close> leaves two assignments under a quota of
  one; and an imported state may hold two assignments of \<open>monitor\<close>, whose quota is one.
\<close>

theorem role_quota_counterexample:
  "\<not> quota_holds (run_role_ops new_RoleManager
        [(1, AssignRole (example_agent ''a1'') ''coder'' ''admin''),
         (2, AssignRole (example_agent ''a2'') ''coder'' ''admin''),
         (3, DefineRole example_coder_quota_1)])
   \<and> countAgentsWithRole (run_role_ops new_RoleManager
        [(1, AssignRole (example_agent ''a1'') ''coder'' ''admin''),
         (2, AssignRole (example_agent ''a2'') ''coder'' ''admin''),
         (3, DefineRole example_coder_quota_1)]) ''coder'' = 2
   \<and> Option.bind (getRole (run_role_ops new_RoleManager
        [(1, AssignRole (example_agent ''a1'') ''coder'' ''admin''),
         (2, AssignRole (example_agent ''a2'') ''coder'' ''admin''),
         (3, DefineRole example_coder_quota_1)]) ''coder'') maxConcurrent = Some 1
   \<and> \<not> quota_holds (run_role_ops new_RoleManager
        [(1, ImportState [example_monitor]
               [example_assignment ''a1'' example_monitor,
                example_assignment ''a2'' example_monitor])])
   \<and> countAgentsWithRole (run_role_ops new_RoleManager
        [(1, ImportState [example_monitor]
               [example_assignment ''a1'' example_monitor,
                example_assignment ''a2'' example_monitor])]) ''monitor'' = 2"
  by (simp add: role_eval)

section \<open>Properties of the router\<close>

lemmas router_eval = example_router_def registerPeer_def subscribe_def new_MessageRouter_def
  subscribe_all_def example_peer_def route_def trackSeen_def set_add_def maxSeenSize_def
  ttl_expired_def MAX_HOP_COUNT_def deliverLocally_def forwardToRemote_def bump_hop_def
  subscription_matches_def truthy_def getPeers_def Let_def
  example_broadcast_def example_envelope_def example_heartbeat_def

lemma seen_kept: "nat \<lfloor>real maxSeenSize * 0.8\<rfloor> = 8000"
  by (simp add: maxSeenSize_def)

lemma trackSeen_member:
  "mid \<notin> set (seenMessages r) \<Longrightarrow> mid \<in> set (seenMessages (trackSeen r mid))"
  unfolding trackSeen_def seen_kept
  by (auto simp: set_add_def Let_def)

lemma trackSeen_subscriptions [simp]: "subscriptions (trackSeen r mid) = subscriptions r"
  by (simp add: trackSeen_def Let_def)

lemma route_seen: "messageId (envelope m) \<in> set (seenMessages (snd (route r now m)))"
  using trackSeen_member [of "messageId (envelope m)" r]
  by (simp add: route_def Let_def)

lemma route_duplicate:
  "messageId (envelope m) \<in> set (seenMessages r) \<Longrightarrow> route r now m = ([], r)"
  by (simp add: route_def Let_def)

lemma count_handler_calls:
  "count_list (map (\<lambda>s. HandlerCall s msg) (filter P subs)) (HandlerCall sub x)
     \<le> count_list subs sub"
  by (induction subs) auto

lemma count_no_handler_in_forward:
  "count_list (forwardToRemote r msg) (HandlerCall sub x) = 0"
  by (simp add: forwardToRemote_def Let_def count_list_0_iff image_iff)

lemma route_handler_calls:
  "count_list (fst (route r now m)) (HandlerCall sub x) \<le> count_list (subscriptions r) sub"
  using count_handler_calls [of m "\<lambda>s. subscription_matches s m" "subscriptions r" sub x]
  by (simp add: route_def Let_def deliverLocally_def count_no_handler_in_forward)

text \<open>
  Claim C5. A \<^verbatim>\<open>route\<close> call whose \<^verbatim>\<open>messageId\<close> is in the dedup set returns at once: no
  handler is called, nothing is forwarded, the router is unchanged. Every \<^verbatim>\<open>route\<close> call
  leaves the id of its message in the dedup set, so a second call with the same id finds it
  there; over the two calls each subscription's handler is called at most once.
\<close>

theorem route_delivers_once:
  "(messageId (envelope m) \<in> set (seenMessages r) \<longrightarrow> route r now m = ([], r))
   \<and> messageId (envelope m) \<in> set (seenMessages (snd (route r now m)))
   \<and> (messageId (envelope m') = messageId (envelope m) \<longrightarrow>
        route (snd (route r now m)) now' m' = ([], snd (route r now m))
        \<and> (\<forall>sub x. count_list (fst (route r now m) @ fst (route (snd (route r now m)) now' m'))
                       (HandlerCall sub x)
                     \<le> count_list (subscriptions r) sub))"
proof (intro conjI impI)
  show "messageId (envelope m) \<in> set (seenMessages r) \<Longrightarrow> route r now m = ([], r)"
    by (rule route_duplicate)
  show seen: "messageId (envelope m) \<in> set (seenMessages (snd (route r now m)))"
    by (rule route_seen)
  assume same: "messageId (envelope m') = messageId (envelope m)"
  with seen show second: "route (snd (route r now m)) now' m' = ([], snd (route r now m))"
    by (simp add: route_duplicate)
  show "\<forall>sub x. count_list (fst (route r now m) @ fst (route (snd (route r now m)) now' m'))
                       (HandlerCall sub x)
                     \<le> count_list (subscriptions r) sub"
    using second route_handler_calls [of r now m] by simp
qed

theorem route_delivers_once_witness:
  "messageId (envelope example_broadcast) \<notin> set (seenMessages example_router)
   \<and> map (\<lambda>e. case e of HandlerCall s _ \<Rightarrow> Some (handler s) | SendToPeer _ _ \<Rightarrow> None)
        (fst (route example_router 5 example_broadcast)) = [Some 0, None]
   \<and> route (snd (route example_router 5 example_broadcast)) 6 example_broadcast
       = ([], snd (route example_router 5 example_broadcast))"
proof -
  have a: "messageId (envelope example_broadcast) \<notin> set (seenMessages example_router)"
    by (simp add: router_eval)
  have b: "map (\<lambda>e. case e of HandlerCall s _ \<Rightarrow> Some (handler s) | SendToPeer _ _ \<Rightarrow> None)
        (fst (route example_router 5 example_broadcast)) = [Some 0, None]"
    by (simp add: router_eval)
  from route_delivers_once [of example_broadcast example_router 5 example_broadcast 6]
  have "route (snd (route example_router 5 example_broadcast)) 6 example_broadcast
       = ([], snd (route example_router 5 example_broadcast))" by blast
  with a b show ?thesis by blast
qed

text \<open>
  Claim C6. A message that enters \<^verbatim>\<open>route\<close> with \<^verbatim>\<open>hopCount\<close> of 16 or more is dropped:
  \<^verbatim>\<open>sendToPeer\<close> is called for no peer and no message (and no handler is called either),
  whatever its direction and recipient.
\<close>

theorem route_hop_limit:
  "hopCount (envelope m) = Some h \<Longrightarrow> 16 \<le> h \<Longrightarrow>
   fst (route r now m) = [] \<and> (\<forall>peer m'. SendToPeer peer m' \<notin> set (fst (route r now m)))"
  by (simp add: route_def Let_def MAX_HOP_COUNT_def)

theorem route_hop_limit_witness:
  "hopCount (envelope example_hop16) = Some 16 \<and> (16::int) \<le> 16
   \<and> fst (route example_router 5 example_hop16) = []
   \<and> SendToPeer (example_peer ''gw-2'') (bump_hop example_hop16)
        \<notin> set (fst (route example_router 5 example_hop16))
   \<and> SendToPeer (example_peer ''gw-2'') (bump_hop example_broadcast)
        \<in> set (fst (route example_router 5 example_broadcast))"
proof -
  have a: "hopCount (envelope example_hop16) = Some 16"
    by (simp add: router_eval example_hop16_def)
  have b: "(16::int) \<le> 16" by simp
  have c: "SendToPeer (example_peer ''gw-2'') (bump_hop example_broadcast)
             \<in> set (fst (route example_router 5 example_broadcast))"
    by (simp add: router_eval)
  from route_hop_limit [OF a b, of example_router 5] a b c show ?thesis by blast
qed

section \<open>Properties of the orchestrator\<close>

lemma js_insert_not_Nil [simp]: "js_insert cmp x ys \<noteq> []"
  by (cases ys) auto

lemma js_sort_Nil_iff [simp]: "(js_sort cmp xs = []) = (xs = [])"
  by (cases xs) (simp_all add: js_sort_def)

lemma hd_js_insert:
  "hd (js_insert cmp x ys) = (if ys = [] \<or> cmp x (hd ys) \<le> 0 then x else hd ys)"
  by (cases ys) auto

lemma compare_load_le:
  "(compare_load a b \<le> 0) =
     (WithLoad.load a < WithLoad.load b
      \<or> (WithLoad.load a = WithLoad.load b \<and> WithLoad.priority b \<le> WithLoad.priority a))"
  by (auto simp: compare_load_def)

lemma hd_js_sort_least:
  "xs \<noteq> [] \<Longrightarrow>
   hd (js_sort compare_load xs) \<in> set xs
   \<and> (\<forall>b \<in> set xs. compare_load (hd (js_sort compare_load xs)) b \<le> 0)"
proof (induction xs)
  case Nil
  then show ?case by simp
next
  case (Cons x xs)
  have unfold: "js_sort compare_load (x # xs) = js_insert compare_load x (js_sort compare_load xs)"
    by (simp add: js_sort_def)
  show ?case
  proof (cases "xs = []")
    case True
    then show ?thesis by (simp add: js_sort_def compare_load_le)
  next
    case False
    with Cons.IH have m: "hd (js_sort compare_load xs) \<in> set xs"
      and least: "\<forall>b \<in> set xs. compare_load (hd (js_sort compare_load xs)) b \<le> 0" by simp_all
    show ?thesis
    proof (cases "compare_load x (hd (js_sort compare_load xs)) \<le> 0")
      case True
      with False have "hd (js_sort compare_load (x # xs)) = x"
        by (simp add: unfold hd_js_insert)
      moreover have "\<forall>b \<in> set xs. compare_load x b \<le> 0"
        using True least by (fastforce simp: compare_load_le)
      ultimately show ?thesis by (simp add: compare_load_le)
    next
      case c: False
      with False have "hd (js_sort compare_load (x # xs)) = hd (js_sort compare_load xs)"
        by (simp add: unfold hd_js_insert)
      moreover have "compare_load (hd (js_sort compare_load xs)) x \<le> 0"
        using c by (auto simp: compare_load_le)
      ultimately show ?thesis using m least by simp
    qed
  qed
qed

lemma selectAgent_by_role:
  assumes "rid \<noteq> []" "\<not> truthy wanted"
  shows "selectAgent orc (Some rid) wanted =
           (if role_candidates orc rid = [] then None
            else Some (WithLoad.agent
                         (hd (js_sort compare_load (map (with_load orc) (role_candidates orc rid))))))"
proof -
  have cand: "filter (\<lambda>a. MultiAgentIdentity.agentInstanceId a
                        \<in> set (map RoleAssignment.agentInstanceId
                                 (getAgentsWithRole (roleManager orc) rid)))
                (getLocalAgents (router orc))
              = role_candidates orc rid"
    unfolding role_candidates_def
    by (rule filter_cong) (auto simp: holds_role_def list_ex_iff image_iff, metis)
  have empty: "getLocalAgents (router orc) = [] \<Longrightarrow> role_candidates orc rid = []"
    by (simp add: role_candidates_def)
  show ?thesis
    unfolding selectAgent_def Let_def option.sel cand
    using assms empty
    by (auto simp: truthy_def split: list.splits)
qed

lemma selected_is_least:
  assumes ne: "role_candidates orc rid \<noteq> []"
  defines "w \<equiv> hd (js_sort compare_load (map (with_load orc) (role_candidates orc rid)))"
  shows "WithLoad.agent w \<in> set (role_candidates orc rid)"
    and "with_load orc (WithLoad.agent w) = w"
    and "\<forall>b \<in> set (role_candidates orc rid). compare_load w (with_load orc b) \<le> 0"
proof -
  from ne have "map (with_load orc) (role_candidates orc rid) \<noteq> []" by simp
  from hd_js_sort_least [OF this]
  have mem: "w \<in> set (map (with_load orc) (role_candidates orc rid))"
    and least: "\<forall>b \<in> set (map (with_load orc) (role_candidates orc rid)). compare_load w b \<le> 0"
    by (simp_all add: w_def)
  from mem obtain a where a: "a \<in> set (role_candidates orc rid)" and w: "w = with_load orc a"
    by auto
  have ag: "WithLoad.agent w = a" by (simp add: w with_load_def)
  with a show "WithLoad.agent w \<in> set (role_candidates orc rid)" by simp
  from ag w show "with_load orc (WithLoad.agent w) = w" by simp
  from least show "\<forall>b \<in> set (role_candidates orc rid). compare_load w (with_load orc b) \<le> 0"
    by simp
qed

lemma created_task_pending:
  "getTask (snd (createTask wt now copts)) (CreateTaskOpts.taskId copts)
     = Some (fst (createTask wt now copts))
   \<and> TrackedTask.status (fst (createTask wt now copts)) = Pending
   \<and> assignedTo (fst (createTask wt now copts)) = None"
  by (simp add: createTask_def getTask_def Let_def update_conv')

lemma assigned_and_started:
  assumes "getTask wt tid = Some t" "TrackedTask.status t = Pending"
  shows "\<exists>t'. getTask (snd (startTask (snd (assignTask wt now tid a)) now' tid)) tid = Some t'
           \<and> assignedTo t' = Some a \<and> TrackedTask.status t' = InProgress"
  using assms by (simp add: getTask_def assignTask_def startTask_def Let_def update_conv')

lemma with_load_fields:
  "WithLoad.load (with_load orc ag) = latest_load orc ag"
  "WithLoad.priority (with_load orc ag) = role_priority orc ag"
  by (simp_all add: with_load_def latest_load_def role_priority_def getAssignment_def
        split: option.splits)

text \<open>
  Claim C9, as amended. A \<^verbatim>\<open>submitTask\<close> call whose \<^verbatim>\<open>targetRoleId\<close> is a non-empty string
  and that names no \<^verbatim>\<open>targetAgentInstanceId\<close>: if some locally registered agent holds the
  role, the selected agent is one of them, its load (latest heartbeat, else 0) is minimal
  among them, among those of the same load its role priority (that of its assignment, else
  50) is maximal, and the returned task is assigned to it and in progress; if none holds
  the role, no agent is selected and the returned task is pending with no agent assigned.
\<close>

theorem submitTask_selects_by_load_then_priority:
  assumes role: "SubmitTaskOpts.targetRoleId opts = Some rid" "rid \<noteq> []"
    and no_target: "\<not> truthy (SubmitTaskOpts.targetAgentInstanceId opts)"
  shows "(role_candidates orc rid = [] \<longrightarrow>
            selectAgent orc (SubmitTaskOpts.targetRoleId opts)
              (SubmitTaskOpts.targetAgentInstanceId opts) = None
            \<and> (\<exists>t. fst (submitTask orc now tid cid mid opts) = Some t
                  \<and> TrackedTask.status t = Pending \<and> assignedTo t = None))
       \<and> (role_candidates orc rid \<noteq> [] \<longrightarrow>
            (\<exists>a. selectAgent orc (SubmitTaskOpts.targetRoleId opts)
                    (SubmitTaskOpts.targetAgentInstanceId opts) = Some a
               \<and> a \<in> set (getLocalAgents (router orc)) \<and> holds_role orc rid a
               \<and> (\<forall>b \<in> set (getLocalAgents (router orc)). holds_role orc rid b \<longrightarrow>
                     latest_load orc a \<le> latest_load orc b
                     \<and> (latest_load orc a = latest_load orc b \<longrightarrow>
                          role_priority orc b \<le> role_priority orc a))
               \<and> (\<exists>t. fst (submitTask orc now tid cid mid opts) = Some t
                     \<and> assignedTo t = Some a \<and> TrackedTask.status t = InProgress)))"
proof (intro conjI impI)
  let ?copts = "\<lparr>CreateTaskOpts.taskId = tid,
               correlationId = (case SubmitTaskOpts.workflowPlanId opts of None \<Rightarrow> cid | Some p \<Rightarrow> p),
               task = SubmitTaskOpts.task opts,
               requestedBy = SubmitTaskOpts.requestedBy opts,
               workflowStepId = SubmitTaskOpts.workflowStepId opts,
               workflowPlanId = SubmitTaskOpts.workflowPlanId opts,
               priority = SubmitTaskOpts.priority opts,
               deadline = SubmitTaskOpts.deadline opts,
               maxRetries = None,
               tags = SubmitTaskOpts.tags opts\<rparr>"
  let ?wt1 = "snd (createTask (workTracker orc) now ?copts)"
  let ?t0 = "fst (createTask (workTracker orc) now ?copts)"
  from created_task_pending [of "workTracker orc" now ?copts]
  have t0: "getTask ?wt1 tid = Some ?t0" "TrackedTask.status ?t0 = Pending" "assignedTo ?t0 = None"
    by simp_all
  note sel = selectAgent_by_role [OF role(2) no_target, of orc]
  {
    assume none: "role_candidates orc rid = []"
    with sel role(1) show s: "selectAgent orc (SubmitTaskOpts.targetRoleId opts)
              (SubmitTaskOpts.targetAgentInstanceId opts) = None" by simp
    show "\<exists>t. fst (submitTask orc now tid cid mid opts) = Some t
                  \<and> TrackedTask.status t = Pending \<and> assignedTo t = None"
      using s t0 by (simp add: submitTask_def split_beta Let_def)
  }
  {
    assume some: "role_candidates orc rid \<noteq> []"
    define w where "w = hd (js_sort compare_load (map (with_load orc) (role_candidates orc rid)))"
    note least = selected_is_least [OF some, folded w_def]
    let ?a = "WithLoad.agent w"
    from sel role(1) some have s: "selectAgent orc (SubmitTaskOpts.targetRoleId opts)
              (SubmitTaskOpts.targetAgentInstanceId opts) = Some ?a" by (simp add: w_def)
    from least(1) have local: "?a \<in> set (getLocalAgents (router orc))"
      and holds: "holds_role orc rid ?a" by (simp_all add: role_candidates_def)
    have "\<forall>b \<in> set (getLocalAgents (router orc)). holds_role orc rid b \<longrightarrow>
                     WithLoad.load (with_load orc ?a) \<le> WithLoad.load (with_load orc b)
                     \<and> (WithLoad.load (with_load orc ?a) = WithLoad.load (with_load orc b) \<longrightarrow>
                          WithLoad.priority (with_load orc b) \<le> WithLoad.priority (with_load orc ?a))"
      using least(2,3) by (auto simp: role_candidates_def compare_load_le)
    then have minimal: "\<forall>b \<in> set (getLocalAgents (router orc)). holds_role orc rid b \<longrightarrow>
                     latest_load orc ?a \<le> latest_load orc b
                     \<and> (latest_load orc ?a = latest_load orc b \<longrightarrow>
                          role_priority orc b \<le> role_priority orc ?a)"
      by (simp only: with_load_fields)
    from assigned_and_started [OF t0(1,2), of now ?a now]
    obtain t' where "getTask (snd (startTask (snd (assignTask ?wt1 now tid ?a)) now tid)) tid = Some t'"
      and "assignedTo t' = Some ?a" and "TrackedTask.status t' = InProgress" by blast
    then have task: "\<exists>t. fst (submitTask orc now tid cid mid opts) = Some t
                     \<and> assignedTo t = Some ?a \<and> TrackedTask.status t = InProgress"
      using s by (simp add: submitTask_def split_beta Let_def)
    from s local holds minimal task
    show "\<exists>a. selectAgent orc (SubmitTaskOpts.targetRoleId opts)
                    (SubmitTaskOpts.targetAgentInstanceId opts) = Some a
               \<and> a \<in> set (getLocalAgents (router orc)) \<and> holds_role orc rid a
               \<and> (\<forall>b \<in> set (getLocalAgents (router orc)). holds_role orc rid b \<longrightarrow>
                     latest_load orc a \<le> latest_load orc b
                     \<and> (latest_load orc a = latest_load orc b \<longrightarrow>
                          role_priority orc b \<le> role_priority orc a))
               \<and> (\<exists>t. fst (submitTask orc now tid cid mid opts) = Some t
                     \<and> assignedTo t = Some a \<and> TrackedTask.status t = InProgress)"
      by blast
  }
qed

theorem submitTask_selection_witness:
  "SubmitTaskOpts.targetRoleId (example_submit ''coder'') = Some ''coder''
   \<and> \<not> truthy (SubmitTaskOpts.targetAgentInstanceId (example_submit ''coder''))
   \<and> map MultiAgentIdentity.agentInstanceId (role_candidates example_tie_orchestrator ''coder'')
       = [''a1'', ''a2'']
   \<and> map (latest_load example_tie_orchestrator)
         (role_candidates example_tie_orchestrator ''coder'') = [0, 0]
   \<and> map (role_priority example_tie_orchestrator)
         (role_candidates example_tie_orchestrator ''coder'') = [60, 90]
   \<and> (\<exists>a t. selectAgent example_tie_orchestrator (Some ''coder'') None = Some a
          \<and> MultiAgentIdentity.agentInstanceId a = ''a2''
          \<and> fst (submitTask example_tie_orchestrator 10 ''t9'' ''c9'' ''m9''
                   (example_submit ''coder'')) = Some t
          \<and> assignedTo t = Some a \<and> TrackedTask.status t = InProgress)
   \<and> map (latest_load example_orchestrator)
         (role_candidates example_orchestrator ''coder'') = [1 / 2, 0]
   \<and> (\<exists>a t. selectAgent example_orchestrator (Some ''coder'') None = Some a
          \<and> MultiAgentIdentity.agentInstanceId a = ''a2''
          \<and> fst (submitTask example_orchestrator 10 ''t9'' ''c9'' ''m9'' (example_submit ''coder''))
              = Some t
          \<and> assignedTo t = Some a \<and> TrackedTask.status t = InProgress)
   \<and> role_candidates example_orchestrator ''nonexistent-role'' = []
   \<and> (\<exists>t. fst (submitTask example_orchestrator 10 ''t9'' ''c9'' ''m9''
                  (example_submit ''nonexistent-role'')) = Some t
          \<and> TrackedTask.status t = Pending \<and> assignedTo t = None)"
proof -
  have r1: "SubmitTaskOpts.targetRoleId (example_submit ''coder'') = Some ''coder''"
    and r2: "SubmitTaskOpts.targetRoleId (example_submit ''nonexistent-role'')
               = Some ''nonexistent-role''"
    and n1: "\<not> truthy (SubmitTaskOpts.targetAgentInstanceId (example_submit ''coder''))"
    and n2: "\<not> truthy (SubmitTaskOpts.targetAgentInstanceId (example_submit ''nonexistent-role''))"
    and t1: "SubmitTaskOpts.targetAgentInstanceId (example_submit ''coder'') = None"
    by (simp_all add: example_submit_def truthy_def)
  have c0: "map MultiAgentIdentity.agentInstanceId (role_candidates example_tie_orchestrator ''coder'')
              = [''a1'', ''a2'']"
    by code_simp
  have l0: "map (latest_load example_tie_orchestrator)
              (role_candidates example_tie_orchestrator ''coder'') = [0, 0]"
    by code_simp
  have p0: "map (role_priority example_tie_orchestrator)
              (role_candidates example_tie_orchestrator ''coder'') = [60, 90]"
    by code_simp
  have s0: "map_option MultiAgentIdentity.agentInstanceId
              (selectAgent example_tie_orchestrator (Some ''coder'') None) = Some ''a2''"
    by code_simp
  have l1: "map (latest_load example_orchestrator)
              (role_candidates example_orchestrator ''coder'') = [1 / 2, 0]"
    by code_simp
  have c1: "role_candidates example_orchestrator ''coder'' \<noteq> []"
    by code_simp
  have c2: "role_candidates example_orchestrator ''nonexistent-role'' = []"
    by code_simp
  have s1: "map_option MultiAgentIdentity.agentInstanceId
              (selectAgent example_orchestrator (Some ''coder'') None) = Some ''a2''"
    by code_simp
  from c0 have ne0: "role_candidates example_tie_orchestrator ''coder'' \<noteq> []" by auto
  from submitTask_selects_by_load_then_priority
         [where opts = "example_submit ''coder''" and rid = "''coder''"
            and orc = example_tie_orchestrator and now = 10 and tid = "''t9''"
            and cid = "''c9''" and mid = "''m9''", OF r1 _ n1] ne0 r1 t1 s0
  have tie: "\<exists>a t. selectAgent example_tie_orchestrator (Some ''coder'') None = Some a
          \<and> MultiAgentIdentity.agentInstanceId a = ''a2''
          \<and> fst (submitTask example_tie_orchestrator 10 ''t9'' ''c9'' ''m9''
                   (example_submit ''coder'')) = Some t
          \<and> assignedTo t = Some a \<and> TrackedTask.status t = InProgress"
    by auto
  from submitTask_selects_by_load_then_priority
         [where opts = "example_submit ''coder''" and rid = "''coder''"
            and orc = example_orchestrator and now = 10 and tid = "''t9''" and cid = "''c9''"
            and mid = "''m9''", OF r1 _ n1] c1 r1 t1 s1
  have coder: "\<exists>a t. selectAgent example_orchestrator (Some ''coder'') None = Some a
          \<and> MultiAgentIdentity.agentInstanceId a = ''a2''
          \<and> fst (submitTask example_orchestrator 10 ''t9'' ''c9'' ''m9'' (example_submit ''coder''))
              = Some t
          \<and> assignedTo t = Some a \<and> TrackedTask.status t = InProgress"
    by auto
  from submitTask_selects_by_load_then_priority
         [where opts = "example_submit ''nonexistent-role''" and rid = "''nonexistent-role''"
            and orc = example_orchestrator and now = 10 and tid = "''t9''" and cid = "''c9''"
            and mid = "''m9''", OF r2 _ n2] c2
  have none: "\<exists>t. fst (submitTask example_orchestrator 10 ''t9'' ''c9'' ''m9''
                  (example_submit ''nonexistent-role'')) = Some t
          \<and> TrackedTask.status t = Pending \<and> assignedTo t = None"
    by auto
  from r1 n1 c0 l0 p0 tie l1 coder c2 none show ?thesis by blast
qed

text \<open>
  Claim C9, as stated, fails for the empty string: \<^verbatim>\<open>targetRoleId = ""\<close> is set, but the
  code tests it for truthiness and then selects among all local agents. No local agent
  holds a role with the empty id, yet agent \<open>a3\<close> (a reviewer) is selected and the returned
  task is assigned to it and in progress, not pending.
\<close>

theorem submitTask_empty_role_counterexample:
  "SubmitTaskOpts.targetRoleId (example_submit []) = Some []
   \<and> SubmitTaskOpts.targetAgentInstanceId (example_submit []) = None
   \<and> role_candidates example_orchestrator [] = []
   \<and> map_option MultiAgentIdentity.agentInstanceId
        (selectAgent example_orchestrator (Some []) None) = Some ''a3''
   \<and> map_option TrackedTask.status
        (fst (submitTask example_orchestrator 10 ''t9'' ''c9'' ''m9'' (example_submit [])))
       = Some InProgress
   \<and> Option.bind (fst (submitTask example_orchestrator 10 ''t9'' ''c9'' ''m9'' (example_submit [])))
        assignedTo
       = selectAgent example_orchestrator (Some []) None"
proof -
  have a: "SubmitTaskOpts.targetRoleId (example_submit []) = Some []
           \<and> SubmitTaskOpts.targetAgentInstanceId (example_submit []) = None"
    by (simp add: example_submit_def)
  have b: "role_candidates example_orchestrator [] = []" by code_simp
  have c: "map_option MultiAgentIdentity.agentInstanceId
             (selectAgent example_orchestrator (Some []) None) = Some ''a3''" by code_simp
  have d: "map_option TrackedTask.status
             (fst (submitTask example_orchestrator 10 ''t9'' ''c9'' ''m9'' (example_submit [])))
            = Some InProgress" by code_simp
  have e: "Option.bind (fst (submitTask example_orchestrator 10 ''t9'' ''c9'' ''m9'' (example_submit [])))
             assignedTo
            = selectAgent example_orchestrator (Some []) None" by code_simp
  from a b c d e show ?thesis by blast
qed

end
